theory Spec2Isabelle
  imports Complex_Main "HOL-Library.Word" "HOL-Library.Multiset"
begin

section \<open>Numbers and typed arrays\<close>

text \<open>
  The choreography core is JavaScript (and a Dart sketch of the parameter compositor).
  A JavaScript number is modelled as a real: rounding error of IEEE doubles is not
  modelled, and the values NaN and the infinities are written out as separate cases
  where an operation of the source can produce them (a division by zero, a read outside
  a typed array, a power). A \<open>Uint8Array\<close> is a list of 8-bit words.
\<close>

type_synonym byte = "8 word"

definition Math_round :: "real \<Rightarrow> int" where
  "Math_round x = \<lfloor>x + 1 / 2\<rfloor>"

section \<open>AudioAnalyzer\<close>

record OnsetEvent =
  detected :: bool
  strength :: real
  time :: real

text \<open>
  One entry of \<open>this.smoothedBands\<close>: the band's range in Hz and its smoothed value.
  The value is \<open>None\<close> when it is NaN, which happens when a band's bin range reaches
  outside the frequency buffer (\<open>this.freqData[i]\<close> is then \<open>undefined\<close>).
  \<open>this.bands\<close> holds the same ranges (the constructor copies them) and is never
  changed, so the ranges are read from here.
\<close>

record Band =
  low :: real
  high :: real
  smoothed :: "real option"

record AudioFrame =
  bands :: "(string \<times> real) list"
  bandDetails :: "(string \<times> real \<times> real \<times> real) list"
  spectralCentroid :: real
  spectralRolloff :: real
  spectralFlux :: real
  rms :: real
  onset :: real
  onsetEvent :: OnsetEvent
  bpm :: real

text \<open>
  The analyzer object. \<open>analyser\<close> says whether \<open>this.analyser\<close> is set. The three
  buffers are typed arrays of \<open>binCount\<close> entries, created by the constructor and filled
  in place, so \<open>binCount\<close> is the length of \<open>freqData\<close>. The fields \<open>this_\<dots>\<close> are the
  object's own \<open>this.spectralCentroid\<close>, \<dots>, \<open>this.rms\<close>.
\<close>

record AudioAnalyzer =
  analyser :: bool
  sampleRate :: real
  freqData :: "byte list"
  timeData :: "byte list"
  prevFreqData :: "byte list"
  smoothedBands :: "(string \<times> Band) list"
  smoothingFactor :: real
  this_spectralCentroid :: real
  this_spectralRolloff :: real
  this_spectralFlux :: real
  this_rms :: real
  onsetHistory :: "real list"
  lastOnsetTime :: real
  onsetThreshold :: real
  lastOnsetEvent :: OnsetEvent
  estimatedBPM :: real
  maxOnsetHistory :: real

definition canonicalBands :: "(string \<times> Band) list" where
  "canonicalBands =
     [(''subBass'', \<lparr>low = 20, high = 60, smoothed = Some 0\<rparr>),
      (''bass'', \<lparr>low = 60, high = 250, smoothed = Some 0\<rparr>),
      (''lowMid'', \<lparr>low = 250, high = 500, smoothed = Some 0\<rparr>),
      (''mid'', \<lparr>low = 500, high = 2000, smoothed = Some 0\<rparr>),
      (''highMid'', \<lparr>low = 2000, high = 4000, smoothed = Some 0\<rparr>),
      (''high'', \<lparr>low = 4000, high = 8000, smoothed = Some 0\<rparr>),
      (''air'', \<lparr>low = 8000, high = 12000, smoothed = Some 0\<rparr>),
      (''ultraHigh'', \<lparr>low = 12000, high = 20000, smoothed = Some 0\<rparr>)]"

text \<open>
  The constructor, from the audio context's sample rate (\<open>|| 44100\<close>), the analyser's
  \<open>frequencyBinCount\<close> and the options \<open>bandSmoothing\<close>, \<open>onsetThreshold\<close> and
  \<open>maxOnsetHistory\<close>.
\<close>

definition newAudioAnalyzer :: "real \<Rightarrow> nat \<Rightarrow> real \<Rightarrow> real \<Rightarrow> real \<Rightarrow> AudioAnalyzer" where
  "newAudioAnalyzer rate n bandSmoothing threshold maxHistory =
     \<lparr>analyser = True,
      sampleRate = (if rate = 0 then 44100 else rate),
      freqData = replicate n 0,
      timeData = replicate n 0,
      prevFreqData = replicate n 0,
      smoothedBands = canonicalBands,
      smoothingFactor = bandSmoothing,
      this_spectralCentroid = 0,
      this_spectralRolloff = 0,
      this_spectralFlux = 0,
      this_rms = 0,
      onsetHistory = [],
      lastOnsetTime = 0,
      onsetThreshold = threshold,
      lastOnsetEvent = \<lparr>detected = False, strength = 0, time = 0\<rparr>,
      estimatedBPM = 120,
      maxOnsetHistory = maxHistory\<rparr>"

definition defaultAudioAnalyzer :: AudioAnalyzer where
  "defaultAudioAnalyzer = newAudioAnalyzer 44100 1024 (8 / 10) (15 / 100) 32"

definition binCount :: "AudioAnalyzer \<Rightarrow> nat" where
  "binCount s = length (freqData s)"

definition freqToBin :: "AudioAnalyzer \<Rightarrow> real \<Rightarrow> int" where
  "freqToBin s frequency = Math_round (frequency / (sampleRate s / 2) * real (binCount s))"

definition binToFreq :: "AudioAnalyzer \<Rightarrow> nat \<Rightarrow> real" where
  "binToFreq s bin = real bin * (sampleRate s / 2) / real (binCount s)"

subsection \<open>Frequency bands\<close>

definition readByte :: "byte list \<Rightarrow> int \<Rightarrow> real option" where
  "readByte xs i =
     (if 0 \<le> i \<and> nat i < length xs then Some (real (unat (xs ! nat i))) else None)"

fun nan_add :: "real option \<Rightarrow> real option \<Rightarrow> real option" where
  "nan_add (Some a) (Some b) = Some (a + b)"
| "nan_add _ _ = None"

definition bandAverage :: "AudioAnalyzer \<Rightarrow> Band \<Rightarrow> real option" where
  "bandAverage s band =
     (let lowBin = freqToBin s (low band);
          highBin = freqToBin s (high band);
          bins = [lowBin..highBin];
          total = fold (\<lambda>i acc. nan_add acc (readByte (freqData s) i)) bins (Some 0);
          count = length bins
      in if count > 0 then map_option (\<lambda>v. v / real count / 255) total else Some 0)"

definition smoothBand :: "AudioAnalyzer \<Rightarrow> Band \<Rightarrow> Band" where
  "smoothBand s band =
     band\<lparr>smoothed :=
       nan_add (map_option (\<lambda>v. smoothingFactor s * v) (smoothed band))
               (map_option (\<lambda>v. (1 - smoothingFactor s) * v) (bandAverage s band))\<rparr>"

definition analyzeBands :: "AudioAnalyzer \<Rightarrow> AudioAnalyzer" where
  "analyzeBands s = s\<lparr>smoothedBands := map (\<lambda>(n, b). (n, smoothBand s b)) (smoothedBands s)\<rparr>"

subsection \<open>Spectral features\<close>

definition magnitude :: "byte \<Rightarrow> real" where
  "magnitude b = real (unat b)"

definition calcSpectralCentroid :: "AudioAnalyzer \<Rightarrow> AudioAnalyzer" where
  "calcSpectralCentroid s =
     (let weightedSum = (\<Sum>i\<leftarrow>[0..<binCount s]. binToFreq s i * magnitude (freqData s ! i));
          total = (\<Sum>i\<leftarrow>[0..<binCount s]. magnitude (freqData s ! i))
      in s\<lparr>this_spectralCentroid :=
             (if total > 0 then min 1 (weightedSum / total / 10000) else 0)\<rparr>)"

fun rolloffScan :: "real \<Rightarrow> real \<Rightarrow> nat \<Rightarrow> byte list \<Rightarrow> nat option" where
  "rolloffScan threshold cumulativeEnergy i [] = None"
| "rolloffScan threshold cumulativeEnergy i (x # xs) =
     (if cumulativeEnergy + magnitude x \<ge> threshold then Some i
      else rolloffScan threshold (cumulativeEnergy + magnitude x) (Suc i) xs)"

definition calcSpectralRolloff :: "AudioAnalyzer \<Rightarrow> AudioAnalyzer" where
  "calcSpectralRolloff s =
     (let totalEnergy = (\<Sum>x\<leftarrow>freqData s. magnitude x);
          threshold = totalEnergy * (85 / 100)
      in s\<lparr>this_spectralRolloff :=
             (case rolloffScan threshold 0 0 (freqData s) of
                Some i \<Rightarrow> real i / real (binCount s)
              | None \<Rightarrow> 1)\<rparr>)"

text \<open>
  \<open>binCount\<close> is positive for every analyser node (its FFT size is at least 32), so the
  divisions by \<open>binCount * 128\<close> and by the length of \<open>timeData\<close> below are never
  the \<open>0 / 0\<close> of an empty buffer. \<open>prevFreqData\<close> has the length of \<open>freqData\<close>.
\<close>

definition calcSpectralFlux :: "AudioAnalyzer \<Rightarrow> AudioAnalyzer" where
  "calcSpectralFlux s =
     (let flux = (\<Sum>(a, b)\<leftarrow>zip (freqData s) (prevFreqData s).
                    (let diff = magnitude a - magnitude b in if diff > 0 then diff else 0))
      in s\<lparr>this_spectralFlux := min 1 (flux / (real (binCount s) * 128))\<rparr>)"

definition calcRMS :: "AudioAnalyzer \<Rightarrow> AudioAnalyzer" where
  "calcRMS s =
     (let sumSquares = (\<Sum>t\<leftarrow>timeData s. ((magnitude t - 128) / 128) ^ 2)
      in s\<lparr>this_rms := sqrt (sumSquares / real (length (timeData s)))\<rparr>)"

subsection \<open>Onset detection and tempo\<close>

text \<open>\<open>now\<close> is the value of \<open>this.getCurrentTime()\<close> at the call.\<close>

definition detectOnset :: "AudioAnalyzer \<Rightarrow> real \<Rightarrow> OnsetEvent \<times> AudioAnalyzer" where
  "detectOnset s now =
     (if this_spectralFlux s > onsetThreshold s \<and> now - lastOnsetTime s > 100 then
        (let pushed = onsetHistory s @ [now];
             history = (if real (length pushed) > maxOnsetHistory s then tl pushed else pushed);
             ev = \<lparr>detected = True, strength = this_spectralFlux s, time = now\<rparr>
         in (ev, s\<lparr>lastOnsetTime := now, onsetHistory := history, lastOnsetEvent := ev\<rparr>))
      else
        (let ev = \<lparr>detected = False, strength = this_spectralFlux s, time = now\<rparr>
         in (ev, s\<lparr>lastOnsetEvent := ev\<rparr>)))"

definition intervalsOf :: "real list \<Rightarrow> real list" where
  "intervalsOf h = map (\<lambda>i. h ! i - h ! (i - 1)) [1..<length h]"

text \<open>
  \<open>60000 / medianInterval\<close> is \<open>Infinity\<close> for a zero interval, which the clamp turns
  into 200.
\<close>

definition medianInterval :: "real list \<Rightarrow> real" where
  "medianInterval h =
     (let intervals = sort (intervalsOf h) in intervals ! (length intervals div 2))"

definition estimateBPM :: "AudioAnalyzer \<Rightarrow> real \<times> AudioAnalyzer" where
  "estimateBPM s =
     (if length (onsetHistory s) < 4 then (120, s)
      else
        (let m = medianInterval (onsetHistory s);
             est = (if m = 0 then 200 else max 60 (min 200 (60000 / m)))
         in (est, s\<lparr>estimatedBPM := est\<rparr>)))"

subsection \<open>The analysis of one frame\<close>

definition createSilentFrame :: "AudioAnalyzer \<Rightarrow> real \<Rightarrow> AudioFrame" where
  "createSilentFrame s now =
     \<lparr>bands = map (\<lambda>(n, band). (n, 0)) (smoothedBands s),
      bandDetails = map (\<lambda>(n, band). (n, low band, high band, 0)) (smoothedBands s),
      spectralCentroid = 0,
      spectralRolloff = 0,
      spectralFlux = 0,
      rms = 0,
      onset = 0,
      onsetEvent = \<lparr>detected = False, strength = 0, time = now\<rparr>,
      bpm = estimatedBPM s\<rparr>"

text \<open>
  What the two reads of the analyser node do at one call: the first throws, or the first
  fills \<open>freqData\<close> and the second throws, or both fill their buffer. A snapshot gives
  the byte of every bin; the buffer keeps its length.
\<close>

datatype pull =
  FrequencyThrows
| TimeDomainThrows "nat \<Rightarrow> byte"
| Pulled "nat \<Rightarrow> byte" "nat \<Rightarrow> byte"

definition fillBuffer :: "(nat \<Rightarrow> byte) \<Rightarrow> byte list \<Rightarrow> byte list" where
  "fillBuffer snapshot buf = map snapshot [0..<length buf]"

definition bandOrZero :: "Band \<Rightarrow> real" where
  "bandOrZero band = (case smoothed band of None \<Rightarrow> 0 | Some v \<Rightarrow> v)"

text \<open>
  The frame that \<open>analyze\<close> returns after a successful read, from the analyzer's
  state and the onset event of the call; \<open>band.value || 0\<close> is 0 for a NaN.
\<close>

definition analyzedFrame :: "AudioAnalyzer \<Rightarrow> OnsetEvent \<Rightarrow> AudioFrame" where
  "analyzedFrame s ev =
     \<lparr>bands = map (\<lambda>(n, band). (n, bandOrZero band)) (smoothedBands s),
      bandDetails = map (\<lambda>(n, band). (n, low band, high band, bandOrZero band)) (smoothedBands s),
      spectralCentroid = this_spectralCentroid s,
      spectralRolloff = this_spectralRolloff s,
      spectralFlux = this_spectralFlux s,
      rms = this_rms s,
      onset = strength ev,
      onsetEvent = ev,
      bpm = estimatedBPM s\<rparr>"

definition analyze :: "AudioAnalyzer \<Rightarrow> pull \<Rightarrow> real \<Rightarrow> AudioFrame \<times> AudioAnalyzer" where
  "analyze s p now =
     (if \<not> analyser s then (createSilentFrame s now, s)
      else case p of
        FrequencyThrows \<Rightarrow> (createSilentFrame s now, s)
      | TimeDomainThrows f \<Rightarrow>
          (let s1 = s\<lparr>freqData := fillBuffer f (freqData s)\<rparr>
           in (createSilentFrame s1 now, s1))
      | Pulled f t \<Rightarrow>
          (let s1 = s\<lparr>freqData := fillBuffer f (freqData s),
                       timeData := fillBuffer t (timeData s)\<rparr>;
               s2 = calcRMS (calcSpectralFlux (calcSpectralRolloff
                      (calcSpectralCentroid (analyzeBands s1))));
               (ev, s3) = detectOnset s2 now;
               s4 = (if length (onsetHistory s3) \<ge> 4 then snd (estimateBPM s3) else s3);
               s5 = s4\<lparr>prevFreqData := freqData s4\<rparr>
           in (analyzedFrame s5 ev, s5)))"

text \<open>A run of the onset detector: each frame sets the spectral flux, then detects.\<close>

fun detectOnsets :: "AudioAnalyzer \<Rightarrow> (real \<times> real) list \<Rightarrow> AudioAnalyzer" where
  "detectOnsets s [] = s"
| "detectOnsets s ((flux, now) # frames) =
     detectOnsets (snd (detectOnset (s\<lparr>this_spectralFlux := flux\<rparr>) now)) frames"

text \<open>The analyzers that calls of \<open>analyze\<close> produce from a constructed one.\<close>

inductive produced :: "AudioAnalyzer \<Rightarrow> bool" where
  constructed: "produced (newAudioAnalyzer rate n bandSmoothing thr maxHistory)"
| analyzed: "produced s \<Longrightarrow> produced (snd (analyze s p now))"

section \<open>RotationChoreographer: the bass_momentum pattern\<close>

record Momentum =
  xw :: real
  yw :: real
  zw :: real

record Rotations =
  rot4dXW :: real
  rot4dYW :: real
  rot4dZW :: real

text \<open>
  The pattern's \<open>update\<close> is an arrow function, so its \<open>this.momentum\<close> is the momentum
  of the choreographer, which the constructor sets to zero.
\<close>

definition zeroMomentum :: Momentum where
  "zeroMomentum = \<lparr>xw = 0, yw = 0, zw = 0\<rparr>"

definition bass_momentum_update :: "Momentum \<Rightarrow> real \<Rightarrow> real \<Rightarrow> Rotations \<times> Momentum" where
  "bass_momentum_update m bassHit decayFactor =
     (let m1 = (if bassHit > 6 / 10
                then m\<lparr>zw := zw m + bassHit * (3 / 10), xw := xw m + bassHit * (1 / 10)\<rparr>
                else m);
          m2 = \<lparr>xw = xw m1 * decayFactor, yw = yw m1 * decayFactor, zw = zw m1 * decayFactor\<rparr>
      in (\<lparr>rot4dXW = xw m2 * pi, rot4dYW = yw m2 * pi, rot4dZW = zw m2 * pi * 2\<rparr>, m2))"

text \<open>
  The momentum after each update of a run, one update per entry of the bass sequence.
\<close>

fun bass_momentum_run :: "Momentum \<Rightarrow> real \<Rightarrow> real list \<Rightarrow> Momentum list" where
  "bass_momentum_run m decayFactor [] = []"
| "bass_momentum_run m decayFactor (bassHit # rest) =
     (let m' = snd (bass_momentum_update m bassHit decayFactor)
      in m' # bass_momentum_run m' decayFactor rest)"

section \<open>HybridParameterEngine\<close>

text \<open>
  The sources of a routing that \<open>_getBandValue\<close> spells out.
\<close>

datatype AudioBand = Bass | Mid | High | Rms | SpectralFlux

datatype RoutingCurve = Linear | Exponential | Logarithmic

text \<open>
  Modelled from the spec: \<open>RoutingCurve.apply\<close> is not in the source. The spec gives
  the curves as linear \<open>x\<close>, exponential \<open>x\<^sup>2\<close> and logarithmic \<open>log(1+x)/log(2)\<close>.
\<close>

fun curve_apply :: "RoutingCurve \<Rightarrow> real \<Rightarrow> real" where
  "curve_apply Linear x = x"
| "curve_apply Exponential x = x * x"
| "curve_apply Logarithmic x = ln (1 + x) / ln 2"

record AudioRouting =
  parameter :: string
  sourceBand :: AudioBand
  amount :: real
  curve :: RoutingCurve
  threshold :: real

record HybridParameterEngine =
  baseParameters :: "(string \<times> real) list"
  choreographyOffsets :: "(string \<times> real) list"
  reactionOffsets :: "(string \<times> real) list"
  manualAmount :: real
  choreographyAmount :: real
  reactionAmount :: real
  routings :: "AudioRouting list"

definition bandOf :: "AudioFrame \<Rightarrow> string \<Rightarrow> real" where
  "bandOf audio n = (case map_of (bands audio) n of None \<Rightarrow> 0 | Some v \<Rightarrow> v)"

fun getBandValue :: "AudioFrame \<Rightarrow> AudioBand \<Rightarrow> real" where
  "getBandValue audio Bass = bandOf audio ''bass''"
| "getBandValue audio Mid = bandOf audio ''mid''"
| "getBandValue audio High = bandOf audio ''high''"
| "getBandValue audio Rms = rms audio"
| "getBandValue audio SpectralFlux = spectralFlux audio"

text \<open>\<open>result[param] ?? 0\<close>\<close>

definition orZero :: "real option \<Rightarrow> real" where
  "orZero v = (case v of None \<Rightarrow> 0 | Some x \<Rightarrow> x)"

definition withBase :: "HybridParameterEngine \<Rightarrow> (string \<rightharpoonup> real)" where
  "withBase e =
     fold (\<lambda>(param, v) result. result(param \<mapsto> v * manualAmount e)) (baseParameters e) Map.empty"

definition withChoreography :: "HybridParameterEngine \<Rightarrow> (string \<rightharpoonup> real) \<Rightarrow> (string \<rightharpoonup> real)" where
  "withChoreography e result0 =
     fold (\<lambda>(param, offset) result.
             result(param \<mapsto> orZero (result param) + offset * choreographyAmount e))
          (choreographyOffsets e) result0"

definition applyRouting ::
  "HybridParameterEngine \<Rightarrow> AudioFrame \<Rightarrow> AudioRouting \<Rightarrow> (string \<rightharpoonup> real) \<Rightarrow> (string \<rightharpoonup> real)" where
  "applyRouting e audioData routing result =
     (let bandValue = getBandValue audioData (sourceBand routing)
      in if bandValue < threshold routing then result
         else
           (let curved = curve_apply (curve routing) bandValue;
                reactionOffset = curved * amount routing * reactionAmount e
            in result(parameter routing \<mapsto> orZero (result (parameter routing)) + reactionOffset)))"

definition withReactions ::
  "HybridParameterEngine \<Rightarrow> AudioFrame \<Rightarrow> (string \<rightharpoonup> real) \<Rightarrow> (string \<rightharpoonup> real)" where
  "withReactions e audioData result0 = fold (applyRouting e audioData) (routings e) result0"

text \<open>
  \<open>_clampParameter\<close> is not in the source; it is the parameter \<open>clampParameter\<close>.
\<close>

definition calculate ::
  "(string \<Rightarrow> real \<Rightarrow> real) \<Rightarrow> HybridParameterEngine \<Rightarrow> AudioFrame \<Rightarrow> (string \<rightharpoonup> real)" where
  "calculate clampParameter e audioData =
     (let result = withReactions e audioData (withChoreography e (withBase e))
      in (\<lambda>param. map_option (clampParameter param) (result param)))"

text \<open>
  The spec's reaction offset of a parameter: over the routings that target it, zero below
  the threshold and the curved band value times the amount times the global reaction
  amount otherwise, summed.
\<close>

definition routingContribution :: "HybridParameterEngine \<Rightarrow> AudioFrame \<Rightarrow> AudioRouting \<Rightarrow> real" where
  "routingContribution e audioData routing =
     (if getBandValue audioData (sourceBand routing) < threshold routing then 0
      else curve_apply (curve routing) (getBandValue audioData (sourceBand routing))
             * amount routing * reactionAmount e)"

definition reactionOffset :: "HybridParameterEngine \<Rightarrow> AudioFrame \<Rightarrow> string \<Rightarrow> real" where
  "reactionOffset e audioData param =
     (\<Sum>routing\<leftarrow>filter (\<lambda>r. parameter r = param) (routings e).
        routingContribution e audioData routing)"

section \<open>ChoreographyEngine\<close>

subsection \<open>Stage changes\<close>

text \<open>
  A number that a stage computes: finite, or one of NaN and the infinities.
\<close>

datatype js_number = Finite real | NonFinite

text \<open>
  The range of the doubles, for the power and the product of a spike: a magnitude of
  2 to the power 1024 less 2 to the power 970, or more, rounds to an infinity, and one
  of 2 to the power -1075, or less, to zero. (Between the two the value is kept as it
  is.)
\<close>

definition overflowsAt :: real where
  "overflowsAt = 2 ^ 1024 - 2 ^ 970"

definition underflowsAt :: real where
  "underflowsAt = 1 / 2 ^ 1075"

definition doubleRange :: "real \<Rightarrow> js_number" where
  "doubleRange x =
     (if \<bar>x\<bar> \<ge> overflowsAt then NonFinite
      else if \<bar>x\<bar> \<le> underflowsAt then Finite 0
      else Finite x)"

text \<open>
  \<open>Math.pow\<close>: a zero exponent gives 1, a positive base the real power, a zero base 0
  for a positive exponent and \<open>Infinity\<close> for a negative one, a negative base the
  integer power for an integral exponent and NaN otherwise; a power outside the range
  of the doubles overflows or underflows.
\<close>

definition Math_pow :: "real \<Rightarrow> real \<Rightarrow> js_number" where
  "Math_pow b e =
     (if e = 0 then Finite 1
      else if b > 0 then doubleRange (b powr e)
      else if b = 0 then (if e > 0 then Finite 0 else NonFinite)
      else if e = of_int \<lfloor>e\<rfloor> then doubleRange (b powi \<lfloor>e\<rfloor>)
      else NonFinite)"

fun js_times :: "real \<Rightarrow> js_number \<Rightarrow> js_number" where
  "js_times a (Finite b) = doubleRange (a * b)"
| "js_times a NonFinite = NonFinite"

text \<open>An endpoint of an interpolation: the string \<open>'current'\<close> or a number.\<close>

datatype endpoint = Current | Fixed real

text \<open>
  A change object of a stage; a field that the object does not have is \<open>None\<close>.
\<close>

record Change =
  change_from :: "endpoint option"
  change_to :: "endpoint option"
  easing :: "string option"
  spike :: "real option"
  decay :: "real option"
  jump :: "real option"

text \<open>
  \<open>getEasingFunction(name)(t)\<close>, as the number that the result is in the product of
  the interpolation; \<open>None\<close> is a call that throws a \<open>TypeError\<close>. A name that is not a
  key of the table selects \<open>linear\<close>, but the table is an object, and a name of a
  property that every object inherits finds that property: called with \<open>t\<close> and
  without a receiver, \<open>constructor\<close> wraps \<open>t\<close>, \<open>isPrototypeOf\<close> returns \<open>false\<close>,
  \<open>toString\<close> returns a text that is not a number, \<open>__proto__\<close> is not a function, and
  the others throw.
\<close>

definition getEasingFunction :: "string \<Rightarrow> real \<Rightarrow> js_number option" where
  "getEasingFunction n t =
     (if n = ''linear'' then Some (Finite t)
      else if n = ''easeIn'' then Some (Finite (t * t))
      else if n = ''easeOut'' then Some (Finite (t * (2 - t)))
      else if n = ''easeInOut''
        then Some (Finite (if t < 1 / 2 then 2 * t * t else - 1 + (4 - 2 * t) * t))
      else if n = ''exponential''
        then Some (if t = 0 then Finite 0 else Math_pow 2 (10 * (t - 1)))
      else if n = ''constructor'' then Some (Finite t)
      else if n = ''isPrototypeOf'' then Some (Finite 0)
      else if n = ''toString'' then Some NonFinite
      else if n \<in> set [''valueOf'', ''toLocaleString'', ''hasOwnProperty'',
                        ''propertyIsEnumerable'', ''__defineGetter__'', ''__defineSetter__'',
                        ''__lookupGetter__'', ''__lookupSetter__'', ''__proto__'']
        then None
      else Some (Finite t))"

text \<open>
  One stage of a sequence: \<open>start\<close> and \<open>duration\<close>, and the changes of the other keys
  in the order of the object's keys.
\<close>

record Stage =
  stage_start :: "real option"
  stage_duration :: real
  changes :: "(string \<times> Change) list"

text \<open>
  A visualizer, as far as the engine touches it: whether it has \<open>updateParameter\<close>, and
  the live values of its parameters, which \<open>updateParameter\<close> stores.
\<close>

record Visualizer =
  hasUpdateParameter :: bool
  params :: "string \<rightharpoonup> js_number"

subsection \<open>Trigger expressions\<close>

text \<open>
  The values of the expressions that are modelled, and a value of \<open>eval\<close> in general:
  \<open>Other t\<close> is any other value, of truthiness \<open>t\<close>.
\<close>

datatype js_primitive = JSBoolean bool | JSNumber real

datatype js_value = Prim js_primitive | Undefined | Other bool

datatype completion = Returns js_value | Throws

fun truthy :: "js_value \<Rightarrow> bool" where
  "truthy (Prim (JSBoolean b)) = b"
| "truthy (Prim (JSNumber x)) = (x \<noteq> 0)"
| "truthy Undefined = False"
| "truthy (Other t) = t"

text \<open>
  The text of an expression after the replacements. A replaced name is kept as one item
  that carries the number, in place of the digits that \<open>Number.prototype.toString\<close>
  prints for it: for a finite number that is not negative they are a numeric literal
  that reads back as the same number.
\<close>

datatype item = Ch char | Lit real

fun startsWith :: "string \<Rightarrow> item list \<Rightarrow> bool" where
  "startsWith [] items = True"
| "startsWith (c # cs) (Ch d # items) = (c = d \<and> startsWith cs items)"
| "startsWith (c # cs) _ = False"

text \<open>
  \<open>text.replace(/name/g, v)\<close>, from left to right; \<open>skip\<close> counts the characters of a
  match that are still to be dropped.
\<close>

fun replaceName :: "string \<Rightarrow> real \<Rightarrow> nat \<Rightarrow> item list \<Rightarrow> item list" where
  "replaceName n v skip [] = []"
| "replaceName n v (Suc k) (i # items) = replaceName n v k items"
| "replaceName n v 0 (i # items) =
     (if startsWith n (i # items) then Lit v # replaceName n v (length n - 1) items
      else i # replaceName n v 0 items)"

definition substituted :: "string \<Rightarrow> AudioFrame \<Rightarrow> item list" where
  "substituted expression audioData =
     replaceName ''onset'' (onset audioData) 0
       (replaceName ''energy'' (rms audioData) 0
         (replaceName ''high'' (bandOf audioData ''high'') 0
           (replaceName ''mid'' (bandOf audioData ''mid'') 0
             (replaceName ''bass'' (bandOf audioData ''bass'') 0 (map Ch expression)))))"

text \<open>
  The expressions whose evaluation is modelled are made of decimal literals, \<open>true\<close>,
  \<open>false\<close>, \<open>!\<close>, the comparisons, the equalities, \<open>&&\<close>, \<open>||\<close> and blanks. The
  scanner gives \<open>None\<close> for every other text: what JavaScript does with it is left to
  the parameter \<open>outside\<close> of \<open>js_eval\<close> below.
\<close>

datatype relop = Less | Greater | LessEq | GreaterEq

datatype eqop = Eq | NotEq | StrictEq | StrictNotEq

datatype token = TNumber real | TBoolean bool | TNot | TRel relop | TEq eqop | TAnd | TOr

definition isDigit :: "char \<Rightarrow> bool" where
  "isDigit c \<longleftrightarrow> c \<in> set ''0123456789''"

definition isIdentStart :: "char \<Rightarrow> bool" where
  "isIdentStart c \<longleftrightarrow> c \<in> set ''abcdefghijklmnopqrstuvwxyzABCDEFGHIJKLMNOPQRSTUVWXYZ_$''"

fun isDigitItem :: "item \<Rightarrow> bool" where
  "isDigitItem (Ch c) = isDigit c"
| "isDigitItem (Lit v) = False"

fun isIdentPartItem :: "item \<Rightarrow> bool" where
  "isIdentPartItem (Ch c) = (isIdentStart c \<or> isDigit c)"
| "isIdentPartItem (Lit v) = False"

fun charsOf :: "item list \<Rightarrow> string" where
  "charsOf [] = []"
| "charsOf (Ch c # items) = c # charsOf items"
| "charsOf (Lit v # items) = charsOf items"

definition digitsValue :: "string \<Rightarrow> nat" where
  "digitsValue ds = foldl (\<lambda>n c. 10 * n + (of_char c - 48)) 0 ds"

text \<open>
  Whether the next item would run into a literal or a word that ends here: a replaced
  number, a character of a name, or a dot.
\<close>

fun glues :: "item list \<Rightarrow> bool" where
  "glues [] = False"
| "glues (Lit v # items) = True"
| "glues (Ch c # items) = (isIdentStart c \<or> isDigit c \<or> c = CHR ''.'')"

fun nextIs :: "char \<Rightarrow> item list \<Rightarrow> bool" where
  "nextIs c (Ch d # items) = (c = d)"
| "nextIs c _ = False"

text \<open>
  A decimal literal that starts with the digit \<open>c\<close>: digits, then possibly a dot and
  digits. A leading zero before another digit, a dot without digits after it, an
  exponent and every other form are left outside.
\<close>

definition lexNumber :: "char \<Rightarrow> item list \<Rightarrow> (token option \<times> item list) option" where
  "lexNumber c items =
     (let ds = c # charsOf (takeWhile isDigitItem items);
          r1 = dropWhile isDigitItem items
      in if c = CHR ''0'' \<and> length ds > 1 then None
         else if nextIs CHR ''.'' r1 then
           (let fs = charsOf (takeWhile isDigitItem (tl r1));
                r2 = dropWhile isDigitItem (tl r1)
            in if fs = [] \<or> glues r2 then None
               else Some (Some (TNumber (real (digitsValue ds)
                                         + real (digitsValue fs) / 10 ^ length fs)), r2))
         else if glues r1 then None
         else Some (Some (TNumber (real (digitsValue ds))), r1))"

definition lexWord :: "char \<Rightarrow> item list \<Rightarrow> (token option \<times> item list) option" where
  "lexWord c items =
     (let w = c # charsOf (takeWhile isIdentPartItem items);
          r = dropWhile isIdentPartItem items
      in if glues r then None
         else if w = ''true'' then Some (Some (TBoolean True), r)
         else if w = ''false'' then Some (Some (TBoolean False), r)
         else None)"

text \<open>
  The first token of \<open>i # items\<close> (none for a blank) and the items after it. An operator
  is the longest one that matches; the shifts, the assignments and the single \<open>&\<close>,
  \<open>|\<close> and \<open>=\<close> are left outside.
\<close>

definition lexOne :: "item \<Rightarrow> item list \<Rightarrow> (token option \<times> item list) option" where
  "lexOne i items =
     (case i of
        Lit v \<Rightarrow> (if v < 0 \<or> glues items then None else Some (Some (TNumber v), items))
      | Ch c \<Rightarrow>
          (if c = CHR '' '' then Some (None, items)
           else if isDigit c then lexNumber c items
           else if isIdentStart c then lexWord c items
           else if c = CHR ''<'' then
             (if nextIs CHR ''='' items then Some (Some (TRel LessEq), tl items)
              else if nextIs CHR ''<'' items then None
              else Some (Some (TRel Less), items))
           else if c = CHR ''>'' then
             (if nextIs CHR ''='' items then Some (Some (TRel GreaterEq), tl items)
              else if nextIs CHR ''>'' items then None
              else Some (Some (TRel Greater), items))
           else if c = CHR ''='' then
             (if nextIs CHR ''='' items then
                (if nextIs CHR ''='' (tl items) then Some (Some (TEq StrictEq), tl (tl items))
                 else Some (Some (TEq Eq), tl items))
              else None)
           else if c = CHR ''!'' then
             (if nextIs CHR ''='' items then
                (if nextIs CHR ''='' (tl items) then Some (Some (TEq StrictNotEq), tl (tl items))
                 else Some (Some (TEq NotEq), tl items))
              else Some (Some TNot, items))
           else if c = CHR ''&'' then
             (if nextIs CHR ''&'' items then
                (if nextIs CHR ''='' (tl items) then None else Some (Some TAnd, tl items))
              else None)
           else if c = CHR ''|'' then
             (if nextIs CHR ''|'' items then
                (if nextIs CHR ''='' (tl items) then None else Some (Some TOr, tl items))
              else None)
           else None))"

text \<open>
  The tokens of a text; \<open>skip\<close> counts the items of the last token that are still to
  be passed over.
\<close>

fun scanFrom :: "nat \<Rightarrow> item list \<Rightarrow> token list option" where
  "scanFrom skip [] = Some []"
| "scanFrom (Suc k) (i # items) = scanFrom k items"
| "scanFrom 0 (i # items) =
     (case lexOne i items of
        None \<Rightarrow> None
      | Some (t, rest) \<Rightarrow>
          (case scanFrom (length items - length rest) items of
             None \<Rightarrow> None
           | Some ts \<Rightarrow> Some (case t of None \<Rightarrow> ts | Some tok \<Rightarrow> tok # ts)))"

definition scan :: "item list \<Rightarrow> token list option" where
  "scan items = scanFrom 0 items"

fun toNumber :: "js_primitive \<Rightarrow> real" where
  "toNumber (JSBoolean b) = (if b then 1 else 0)"
| "toNumber (JSNumber x) = x"

fun toBoolean :: "js_primitive \<Rightarrow> bool" where
  "toBoolean (JSBoolean b) = b"
| "toBoolean (JSNumber x) = (x \<noteq> 0)"

fun relational :: "relop \<Rightarrow> js_primitive \<Rightarrow> js_primitive \<Rightarrow> js_primitive" where
  "relational Less a b = JSBoolean (toNumber a < toNumber b)"
| "relational Greater a b = JSBoolean (toNumber a > toNumber b)"
| "relational LessEq a b = JSBoolean (toNumber a \<le> toNumber b)"
| "relational GreaterEq a b = JSBoolean (toNumber a \<ge> toNumber b)"

fun equality :: "eqop \<Rightarrow> js_primitive \<Rightarrow> js_primitive \<Rightarrow> js_primitive" where
  "equality Eq a b = JSBoolean (toNumber a = toNumber b)"
| "equality NotEq a b = JSBoolean (toNumber a \<noteq> toNumber b)"
| "equality StrictEq a b = JSBoolean (a = b)"
| "equality StrictNotEq a b = JSBoolean (a \<noteq> b)"

fun logicalAnd :: "unit \<Rightarrow> js_primitive \<Rightarrow> js_primitive \<Rightarrow> js_primitive" where
  "logicalAnd u a b = (if toBoolean a then b else a)"

fun logicalOr :: "unit \<Rightarrow> js_primitive \<Rightarrow> js_primitive \<Rightarrow> js_primitive" where
  "logicalOr u a b = (if toBoolean a then a else b)"

text \<open>
  A token list cut at the operators of one level: the first operand, and every
  operator with the operand after it.
\<close>

fun chain :: "(token \<Rightarrow> 'o option) \<Rightarrow> token list \<Rightarrow> token list \<times> ('o \<times> token list) list" where
  "chain sep [] = ([], [])"
| "chain sep (t # ts) =
     (case sep t of
        Some oper \<Rightarrow> ([], (oper, fst (chain sep ts)) # snd (chain sep ts))
      | None \<Rightarrow> (t # fst (chain sep ts), snd (chain sep ts)))"

text \<open>
  The value of a left-associative chain; \<open>None\<close> is a syntax error in an operand.
\<close>

definition evalChain ::
  "(token list \<Rightarrow> js_primitive option) \<Rightarrow> ('o \<Rightarrow> js_primitive \<Rightarrow> js_primitive \<Rightarrow> js_primitive)
     \<Rightarrow> token list \<times> ('o \<times> token list) list \<Rightarrow> js_primitive option" where
  "evalChain operand apply c =
     foldl (\<lambda>acc (oper, seg).
              case acc of
                None \<Rightarrow> None
              | Some a \<Rightarrow> (case operand seg of None \<Rightarrow> None | Some b \<Rightarrow> Some (apply oper a b)))
           (operand (fst c)) (snd c)"

fun evalUnary :: "token list \<Rightarrow> js_primitive option" where
  "evalUnary [TNumber v] = Some (JSNumber v)"
| "evalUnary [TBoolean b] = Some (JSBoolean b)"
| "evalUnary (TNot # ts) = map_option (\<lambda>v. JSBoolean (\<not> toBoolean v)) (evalUnary ts)"
| "evalUnary ts = None"

definition isRel :: "token \<Rightarrow> relop option" where
  "isRel t = (case t of TRel r \<Rightarrow> Some r | _ \<Rightarrow> None)"

definition isEq :: "token \<Rightarrow> eqop option" where
  "isEq t = (case t of TEq r \<Rightarrow> Some r | _ \<Rightarrow> None)"

definition isAnd :: "token \<Rightarrow> unit option" where
  "isAnd t = (case t of TAnd \<Rightarrow> Some () | _ \<Rightarrow> None)"

definition isOr :: "token \<Rightarrow> unit option" where
  "isOr t = (case t of TOr \<Rightarrow> Some () | _ \<Rightarrow> None)"

definition evalRelational :: "token list \<Rightarrow> js_primitive option" where
  "evalRelational ts = evalChain evalUnary relational (chain isRel ts)"

definition evalEquality :: "token list \<Rightarrow> js_primitive option" where
  "evalEquality ts = evalChain evalRelational equality (chain isEq ts)"

definition evalAnd :: "token list \<Rightarrow> js_primitive option" where
  "evalAnd ts = evalChain evalEquality logicalAnd (chain isAnd ts)"

definition evalOr :: "token list \<Rightarrow> js_primitive option" where
  "evalOr ts = evalChain evalAnd logicalOr (chain isOr ts)"

text \<open>
  \<open>eval\<close> on a modelled text: \<open>undefined\<close> for a blank text, the value of the
  expression, or a \<open>SyntaxError\<close>. \<open>None\<close> is a text that is not modelled.
\<close>

definition evalFragment :: "item list \<Rightarrow> completion option" where
  "evalFragment items =
     (case scan items of
        None \<Rightarrow> None
      | Some ts \<Rightarrow>
          Some (if ts = [] then Returns Undefined
                else case evalOr ts of None \<Rightarrow> Throws | Some v \<Rightarrow> Returns (Prim v)))"

subsection \<open>The engine's state\<close>

text \<open>
  The fields \<open>mem_lastOnsetTime\<close> and \<open>mem_lastOnsetEvent\<close> are the memory's
  \<open>lastOnsetTime\<close> and \<open>lastOnsetEvent\<close>.
\<close>

record Memory =
  recentBassHits :: "real list"
  predictedNextBass :: "real option"
  colorJourneyPosition :: real
  geometrySequence :: "nat list"
  rotationMomentum :: Momentum
  energyTrend :: string
  mem_lastOnsetTime :: real
  mem_lastOnsetEvent :: "OnsetEvent option"
  energyHistory :: "real list"

text \<open>
  The trigger of a sequence: a function of the audio data and the memory, a string, or
  neither. The result of a function is taken as a condition, \<open>None\<close> is a call that
  throws, and the function is taken to read the memory only.
\<close>

datatype trigger =
  TriggerFunction "AudioFrame \<Rightarrow> Memory \<Rightarrow> bool option"
| TriggerString string
| NoTrigger

record Sequence =
  name :: string
  duration :: real
  trigger :: trigger
  stages :: "Stage list"

text \<open>
  An active sequence is a copy of the sequence's fields with \<open>startTime\<close> and
  \<open>currentStage\<close>.
\<close>

record ActiveSequence =
  sequence :: Sequence
  startTime :: real
  currentStage :: nat

text \<open>
  \<open>sequences\<close> is the map from names to sequences, in the order of insertion; the key
  of a sequence is its name. \<open>engineStartTime\<close> is the engine's \<open>startTime\<close>,
  \<open>null\<close> before \<open>start\<close>, and \<open>engine_bpm\<close> its \<open>bpm\<close>.
\<close>

record ChoreographyEngine =
  visualizers :: "Visualizer list"
  engine_bpm :: real
  beatDuration :: real
  running :: bool
  engineStartTime :: "real option"
  currentBeat :: int
  currentMeasure :: int
  beatsPerMeasure :: int
  sequences :: "Sequence list"
  activeSequences :: "ActiveSequence list"
  sequenceHistory :: "(string \<times> real) list"
  memory :: Memory
  lastFrameTime :: real
  deltaTime :: real

definition newMemory :: Memory where
  "newMemory =
     \<lparr>recentBassHits = [], predictedNextBass = None, colorJourneyPosition = 0,
      geometrySequence = [], rotationMomentum = \<lparr>xw = 0, yw = 0, zw = 0\<rparr>, energyTrend = ''neutral'',
      mem_lastOnsetTime = 0, mem_lastOnsetEvent = None, energyHistory = []\<rparr>"

text \<open>The constructor, from \<open>config.visualizers\<close> and \<open>config.bpm\<close>.\<close>

definition newChoreographyEngine :: "Visualizer list \<Rightarrow> real option \<Rightarrow> ChoreographyEngine" where
  "newChoreographyEngine vs configBpm =
     (let b = (case configBpm of None \<Rightarrow> 120 | Some v \<Rightarrow> if v = 0 then 120 else v)
      in \<lparr>visualizers = vs, engine_bpm = b, beatDuration = 60 / b * 1000,
          running = False, engineStartTime = None, currentBeat = 0, currentMeasure = 0,
          beatsPerMeasure = 4, sequences = [], activeSequences = [], sequenceHistory = [],
          memory = newMemory, lastFrameTime = 0, deltaTime = 0\<rparr>)"

text \<open>
  \<open>defineSequence\<close> throws for a sequence without a name (\<open>None\<close>); otherwise it sets
  the map's entry, which keeps the place of an entry that exists.
\<close>

fun setSequence :: "Sequence \<Rightarrow> Sequence list \<Rightarrow> Sequence list" where
  "setSequence s [] = [s]"
| "setSequence s (x # xs) = (if name x = name s then s # xs else x # setSequence s xs)"

definition defineSequence :: "ChoreographyEngine \<Rightarrow> Sequence \<Rightarrow> ChoreographyEngine option" where
  "defineSequence e s =
     (if name s = [] then None else Some (e\<lparr>sequences := setSequence s (sequences e)\<rparr>))"

text \<open>\<open>start\<close> at the time \<open>now\<close>; the first call of \<open>animate\<close> follows it.\<close>

definition start :: "ChoreographyEngine \<Rightarrow> real \<Rightarrow> ChoreographyEngine" where
  "start e now =
     (if running e then e
      else e\<lparr>running := True, engineStartTime := Some now, lastFrameTime := now\<rparr>)"

definition stop :: "ChoreographyEngine \<Rightarrow> ChoreographyEngine" where
  "stop e = e\<lparr>running := False\<rparr>"

subsection \<open>Beat tracking and memory\<close>

definition onOnset :: "ChoreographyEngine \<Rightarrow> real \<Rightarrow> real \<Rightarrow> OnsetEvent \<Rightarrow> ChoreographyEngine" where
  "onOnset e intensity t event =
     e\<lparr>memory := (memory e)\<lparr>mem_lastOnsetTime := t, mem_lastOnsetEvent := Some event\<rparr>\<rparr>"

definition updateBeatTracking :: "ChoreographyEngine \<Rightarrow> real \<Rightarrow> AudioFrame \<Rightarrow> ChoreographyEngine" where
  "updateBeatTracking e currentTime audioData =
     (let elapsed = currentTime - (case engineStartTime e of None \<Rightarrow> 0 | Some t \<Rightarrow> t);
          beatNumber = \<lfloor>elapsed / beatDuration e\<rfloor>;
          e1 = (if beatNumber > currentBeat e
                then e\<lparr>currentBeat := beatNumber,
                       currentMeasure := beatNumber div beatsPerMeasure e\<rparr>
                else e);
          ev = onsetEvent audioData
      in if detected ev \<and> strength ev > 0 then onOnset e1 (strength ev) currentTime ev else e1)"

definition calculateSlope :: "real list \<Rightarrow> real" where
  "calculateSlope d =
     (if length d < 2 then 0
      else
        (let n = real (length d);
             sumX = (\<Sum>i\<leftarrow>[0..<length d]. real i);
             sumY = (\<Sum>i\<leftarrow>[0..<length d]. d ! i);
             sumXY = (\<Sum>i\<leftarrow>[0..<length d]. real i * d ! i);
             sumX2 = (\<Sum>i\<leftarrow>[0..<length d]. real i * real i)
         in (n * sumXY - sumX * sumY) / (n * sumX2 - sumX * sumX)))"

text \<open>
  The audio data of a tick has passed \<open>normalizeAudioData\<close>, which gives every band a
  number; a band that the list does not hold reads as 0.
\<close>

definition trackBassHits :: "Memory \<Rightarrow> AudioFrame \<Rightarrow> real \<Rightarrow> Memory" where
  "trackBassHits m audioData currentTime =
     (if bandOf audioData ''bass'' > 7 / 10 then
        (let pushed = recentBassHits m @ [currentTime];
             hits = (if length pushed > 10 then tl pushed else pushed);
             m1 = m\<lparr>recentBassHits := hits\<rparr>
         in if length hits \<ge> 3 then
              (let intervals = intervalsOf hits;
                   avgInterval = sum_list intervals / real (length intervals)
               in m1\<lparr>predictedNextBass := Some (currentTime + avgInterval)\<rparr>)
            else m1)
      else m)"

definition trackEnergyTrend :: "Memory \<Rightarrow> AudioFrame \<Rightarrow> Memory" where
  "trackEnergyTrend m audioData =
     (let pushed = energyHistory m @ [rms audioData];
          history = (if length pushed > 20 then tl pushed else pushed);
          m1 = m\<lparr>energyHistory := history\<rparr>
      in if length history \<ge> 10 then
           (let slope = calculateSlope history
            in if slope > 1 / 100 then m1\<lparr>energyTrend := ''building''\<rparr>
               else if slope < - (1 / 100) then m1\<lparr>energyTrend := ''releasing''\<rparr>
               else m1\<lparr>energyTrend := ''stable''\<rparr>)
         else m1)"

definition accumulateRotationMomentum :: "Memory \<Rightarrow> AudioFrame \<Rightarrow> Memory" where
  "accumulateRotationMomentum m audioData =
     (let rm = rotationMomentum m;
          rm1 = (if bandOf audioData ''bass'' > 5 / 10
                 then rm\<lparr>zw := zw rm + bandOf audioData ''bass'' * (1 / 10)\<rparr>
                 else rm)
      in m\<lparr>rotationMomentum := rm1\<lparr>zw := zw rm1 * (98 / 100)\<rparr>\<rparr>)"

definition updateMemory :: "ChoreographyEngine \<Rightarrow> AudioFrame \<Rightarrow> real \<Rightarrow> ChoreographyEngine" where
  "updateMemory e audioData currentTime =
     e\<lparr>memory :=
         accumulateRotationMomentum
           (trackEnergyTrend (trackBassHits (memory e) audioData currentTime) audioData)
           audioData\<rparr>"

subsection \<open>Triggers and active sequences\<close>

text \<open>
  A method of the engine runs to its end or throws; the engine is as the method left it
  in both cases.
\<close>

datatype 'a outcome = Done 'a | Thrown 'a

fun stateOf :: "'a outcome \<Rightarrow> 'a" where
  "stateOf (Done s) = s"
| "stateOf (Thrown s) = s"

text \<open>\<open>forEach\<close> over a list, with a callback that changes the state and may throw.\<close>

fun forEach :: "('a \<Rightarrow> 's \<Rightarrow> 's outcome) \<Rightarrow> 'a list \<Rightarrow> 's \<Rightarrow> 's outcome" where
  "forEach f [] s = Done s"
| "forEach f (x # xs) s =
     (case f x s of
        Done s' \<Rightarrow> forEach f xs s'
      | Thrown s' \<Rightarrow> Thrown s')"

definition isActive :: "ChoreographyEngine \<Rightarrow> string \<Rightarrow> bool" where
  "isActive e n \<longleftrightarrow> find (\<lambda>a. name (sequence a) = n) (activeSequences e) \<noteq> None"

definition startSequence :: "ChoreographyEngine \<Rightarrow> string \<Rightarrow> real \<Rightarrow> ChoreographyEngine" where
  "startSequence e n t =
     (case find (\<lambda>s. name s = n) (sequences e) of
        None \<Rightarrow> e
      | Some s \<Rightarrow>
          e\<lparr>activeSequences :=
                activeSequences e @ [\<lparr>sequence = s, startTime = t, currentStage = 0\<rparr>],
            sequenceHistory := sequenceHistory e @ [(n, t)]\<rparr>)"

text \<open>
  \<open>eval\<close> is called directly, in the scope of the method: a text can read the engine
  and act on it through \<open>this\<close>, as \<open>this.startSequence('drop', 0)\<close> does. For a text
  that is not modelled, \<open>outside\<close> gives what JavaScript does with it in the engine
  \<open>e\<close>: the completion and the engine that it leaves. (Not modelled are a text whose
  evaluation does not end, one that changes the map of sequences, the memory or the
  audio data, and one that leaves in a field of the engine a value that is not of the
  field's kind: the map of sequences and the memory stay as they are.)
\<close>

type_synonym direct_eval = "item list \<Rightarrow> ChoreographyEngine \<Rightarrow> completion \<times> ChoreographyEngine"

definition js_eval ::
  "direct_eval \<Rightarrow> item list \<Rightarrow> ChoreographyEngine \<Rightarrow> completion \<times> ChoreographyEngine" where
  "js_eval outside items e =
     (case evalFragment items of
        Some c \<Rightarrow> (c, e)
      | None \<Rightarrow>
          (fst (outside items e),
           (snd (outside items e))\<lparr>sequences := sequences e, memory := memory e\<rparr>))"

text \<open>
  \<open>evaluateTrigger\<close>: the whole body is inside \<open>try\<close>, and the handler returns
  \<open>false\<close>; what the text did to the engine before it threw stays done.
\<close>

definition evaluateTrigger ::
  "direct_eval \<Rightarrow> string \<Rightarrow> AudioFrame \<Rightarrow> ChoreographyEngine \<Rightarrow> completion \<times> ChoreographyEngine" where
  "evaluateTrigger outside expression audioData e =
     (case js_eval outside (substituted expression audioData) e of
        (Returns v, e') \<Rightarrow> (Returns v, e')
      | (Throws, e') \<Rightarrow> (Returns (Prim (JSBoolean False)), e'))"

text \<open>
  The callback of \<open>checkTriggers\<close> for one entry of the map: nothing for a sequence
  with an active instance; otherwise the trigger is called or evaluated, and the
  sequence is started when the result is truthy. An exception of the trigger leaves
  the loop.
\<close>

definition checkTrigger ::
  "direct_eval \<Rightarrow> AudioFrame \<Rightarrow> real \<Rightarrow> Sequence \<Rightarrow> ChoreographyEngine
     \<Rightarrow> ChoreographyEngine outcome" where
  "checkTrigger outside audioData currentTime s e =
     (if isActive e (name s) then Done e
      else
        (case trigger s of
           TriggerFunction f \<Rightarrow>
             (case f audioData (memory e) of
                None \<Rightarrow> Thrown e
              | Some triggered \<Rightarrow>
                  Done (if triggered then startSequence e (name s) currentTime else e))
         | TriggerString expression \<Rightarrow>
             (case evaluateTrigger outside expression audioData e of
                (Returns v, e') \<Rightarrow>
                  Done (if truthy v then startSequence e' (name s) currentTime else e')
              | (Throws, e') \<Rightarrow> Thrown e')
         | NoTrigger \<Rightarrow> Done e))"

definition checkTriggers ::
  "direct_eval \<Rightarrow> ChoreographyEngine \<Rightarrow> AudioFrame \<Rightarrow> real \<Rightarrow> ChoreographyEngine outcome" where
  "checkTriggers outside e audioData currentTime =
     forEach (checkTrigger outside audioData currentTime) (sequences e) e"

subsection \<open>Stages\<close>

definition getCurrentParam :: "ChoreographyEngine \<Rightarrow> string \<Rightarrow> real" where
  "getCurrentParam e param = 0"

definition setChoreographedParam :: "ChoreographyEngine \<Rightarrow> string \<Rightarrow> js_number \<Rightarrow> ChoreographyEngine" where
  "setChoreographedParam e param v =
     e\<lparr>visualizers :=
         map (\<lambda>viz. if hasUpdateParameter viz then viz\<lparr>params := (params viz)(param \<mapsto> v)\<rparr> else viz)
             (visualizers e)\<rparr>"

definition resolveEndpoint :: "ChoreographyEngine \<Rightarrow> string \<Rightarrow> endpoint \<Rightarrow> real" where
  "resolveEndpoint e param p = (case p of Current \<Rightarrow> getCurrentParam e param | Fixed v \<Rightarrow> v)"

text \<open>
  The value that \<open>applyStage\<close> computes for one change: \<open>null\<close>, for which no parameter
  is set, or a number; or the call of the easing throws.
\<close>

datatype change_value = IsNull | IsNumber js_number | ThrowsTypeError

definition changeValue :: "ChoreographyEngine \<Rightarrow> string \<Rightarrow> Change \<Rightarrow> real \<Rightarrow> change_value" where
  "changeValue e param change progress =
     (case (change_from change, change_to change) of
        (Some changeFrom, Some changeTo) \<Rightarrow>
          (let easingName = (case easing change of
                               None \<Rightarrow> ''linear''
                             | Some n \<Rightarrow> if n = [] then ''linear'' else n)
           in case getEasingFunction easingName progress of
                None \<Rightarrow> ThrowsTypeError
              | Some t \<Rightarrow>
                  (let from = resolveEndpoint e param changeFrom;
                       to = resolveEndpoint e param changeTo
                   in case t of
                        Finite t' \<Rightarrow> IsNumber (Finite (from + (to - from) * t'))
                      | NonFinite \<Rightarrow> IsNumber NonFinite))
      | _ \<Rightarrow>
          (case spike change of
             Some s \<Rightarrow>
               (let d = (case decay change of
                           None \<Rightarrow> 95 / 100
                         | Some v \<Rightarrow> if v = 0 then 95 / 100 else v)
                in IsNumber (js_times s (Math_pow d (progress * 100))))
           | None \<Rightarrow>
               (case jump change of
                  Some j \<Rightarrow> IsNumber (Finite j)
                | None \<Rightarrow> IsNull)))"

definition applyChange ::
  "real \<Rightarrow> string \<times> Change \<Rightarrow> ChoreographyEngine \<Rightarrow> ChoreographyEngine outcome" where
  "applyChange progress pc e =
     (case changeValue e (fst pc) (snd pc) progress of
        IsNull \<Rightarrow> Done e
      | IsNumber v \<Rightarrow> Done (setChoreographedParam e (fst pc) v)
      | ThrowsTypeError \<Rightarrow> Thrown e)"

definition applyStage :: "ChoreographyEngine \<Rightarrow> Stage \<Rightarrow> real \<Rightarrow> ChoreographyEngine outcome" where
  "applyStage e stage progress = forEach (applyChange progress) (changes stage) e"

text \<open>
  The first stage whose window holds \<open>elapsed\<close>, with the progress in it. A stage
  without \<open>start\<close>, or with the start 0, starts where the stage before it ended.
\<close>

fun findStage :: "real \<Rightarrow> real \<Rightarrow> Stage list \<Rightarrow> (Stage \<times> real) option" where
  "findStage accumulatedTime elapsed [] = None"
| "findStage accumulatedTime elapsed (stage # rest) =
     (let stageStart = (case stage_start stage of
                          None \<Rightarrow> accumulatedTime
                        | Some v \<Rightarrow> if v = 0 then accumulatedTime else v);
          stageDuration = stage_duration stage
      in if elapsed \<ge> stageStart \<and> elapsed < stageStart + stageDuration
         then Some (stage, (elapsed - stageStart) / stageDuration)
         else findStage (stageStart + stageDuration) elapsed rest)"

definition updateSequence ::
  "ChoreographyEngine \<Rightarrow> Sequence \<Rightarrow> real \<Rightarrow> ChoreographyEngine outcome" where
  "updateSequence e s elapsed =
     (case findStage 0 elapsed (stages s) of
        None \<Rightarrow> Done e
      | Some (stage, stageProgress) \<Rightarrow> applyStage e stage stageProgress)"

definition completed :: "real \<Rightarrow> ActiveSequence \<Rightarrow> bool" where
  "completed currentTime a \<longleftrightarrow> currentTime - startTime a \<ge> duration (sequence a)"

text \<open>
  \<open>updateActiveSequences\<close>: the callback of \<open>filter\<close> applies the stage of every
  instance that it keeps, and the filtered list is assigned when \<open>filter\<close> returns; an
  exception in the callback leaves the list of active sequences as it was.
\<close>

definition updateActive :: "real \<Rightarrow> ActiveSequence \<Rightarrow> ChoreographyEngine \<Rightarrow> ChoreographyEngine outcome" where
  "updateActive currentTime a e =
     (if completed currentTime a then Done e
      else updateSequence e (sequence a) (currentTime - startTime a))"

definition updateActiveSequences :: "ChoreographyEngine \<Rightarrow> real \<Rightarrow> ChoreographyEngine outcome" where
  "updateActiveSequences e currentTime =
     (case forEach (updateActive currentTime) (activeSequences e) e of
        Done e1 \<Rightarrow>
          Done (e1\<lparr>activeSequences := filter (\<lambda>a. \<not> completed currentTime a) (activeSequences e)\<rparr>)
      | Thrown e1 \<Rightarrow> Thrown e1)"

subsection \<open>One tick\<close>

text \<open>
  \<open>animate\<close> at the time \<open>currentTime\<close>, from the audio data that
  \<open>normalizeAudioData\<close> returned for the frame. A tick that throws requests no further
  frame.
\<close>

definition animate ::
  "direct_eval \<Rightarrow> ChoreographyEngine \<Rightarrow> AudioFrame \<Rightarrow> real \<Rightarrow> ChoreographyEngine outcome" where
  "animate outside e audioData currentTime =
     (if \<not> running e then Done e
      else
        (let e1 = e\<lparr>deltaTime := currentTime - lastFrameTime e, lastFrameTime := currentTime\<rparr>;
             e2 = updateBeatTracking e1 currentTime audioData;
             e3 = updateMemory e2 audioData currentTime
         in case checkTriggers outside e3 audioData currentTime of
              Done e4 \<Rightarrow> updateActiveSequences e4 currentTime
            | Thrown e4 \<Rightarrow> Thrown e4))"

text \<open>
  The engines that the operations produce from a constructed one, with any audio data
  and any times; \<open>startSequence\<close> is also called from outside the engine (a manual
  start).
\<close>

inductive reachable :: "direct_eval \<Rightarrow> ChoreographyEngine \<Rightarrow> bool"
  for outside :: direct_eval where
  constructed: "reachable outside (newChoreographyEngine vs configBpm)"
| defined: "reachable outside e \<Longrightarrow> defineSequence e s = Some e' \<Longrightarrow> reachable outside e'"
| started: "reachable outside e \<Longrightarrow> reachable outside (start e now)"
| stopped: "reachable outside e \<Longrightarrow> reachable outside (stop e)"
| ticked: "reachable outside e \<Longrightarrow> reachable outside (stateOf (animate outside e audioData currentTime))"
| manual: "reachable outside e \<Longrightarrow> reachable outside (startSequence e n startedAt)"

section \<open>Notions of the specification and example inputs\<close>

text \<open>
  The median of a list of numbers: the middle value of the sorted list, and the mean of
  the two middle values when their number is even.
\<close>

definition median :: "real list \<Rightarrow> real" where
  "median xs =
     (let ys = sort xs; n = length ys
      in if odd n then ys ! (n div 2) else (ys ! (n div 2 - 1) + ys ! (n div 2)) / 2)"

text \<open>
  The value of rank \<open>k\<close> of a list, counted from 0: one of its values, with at most
  \<open>k\<close> of the values below it and more than \<open>k\<close> of them not above it.
\<close>

definition hasRank :: "real list \<Rightarrow> nat \<Rightarrow> real \<Rightarrow> bool" where
  "hasRank xs k m \<longleftrightarrow>
     m \<in> set xs \<and>
     length (filter (\<lambda>x. x < m) xs) \<le> k \<and>
     k < length (filter (\<lambda>x. x \<le> m) xs)"

text \<open>
  Five onsets, 250 ms and 1000 ms apart in turn: an even number of intervals, of which
  the two middle values differ.
\<close>

definition unevenOnsets :: "real list" where
  "unevenOnsets = [0, 250, 1250, 1500, 2500]"

text \<open>Onset times of which each is more than 100 ms after every earlier one.\<close>

definition spaced :: "real list \<Rightarrow> bool" where
  "spaced xs = sorted_wrt (\<lambda>a b. b - a > 100) xs"

definition onsetInv :: "AudioAnalyzer \<Rightarrow> bool" where
  "onsetInv s \<longleftrightarrow>
     spaced (onsetHistory s) \<and> (\<forall>x \<in> set (onsetHistory s). x \<le> lastOnsetTime s)"

definition cappedInv :: "AudioAnalyzer \<Rightarrow> bool" where
  "cappedInv s \<longleftrightarrow>
     onsetInv s \<and> real (length (onsetHistory s)) \<le> max 0 (maxOnsetHistory s)"

text \<open>A flux of 0.5, above the threshold, every 40 ms.\<close>

definition every40 :: "(real \<times> real) list" where
  "every40 = [(1 / 2, 40), (1 / 2, 80), (1 / 2, 120), (1 / 2, 160), (1 / 2, 200),
              (1 / 2, 240), (1 / 2, 280), (1 / 2, 320), (1 / 2, 360), (1 / 2, 400)]"

text \<open>
  The two routings on \<open>intensity\<close> of the spec's example, with bass 0.4 and mid 0.6.
\<close>

definition exampleRoutings :: "AudioRouting list" where
  "exampleRoutings =
     [\<lparr>parameter = ''intensity'', sourceBand = Bass, amount = 1, curve = Linear, threshold = 0\<rparr>,
      \<lparr>parameter = ''intensity'', sourceBand = Mid, amount = 1 / 2, curve = Linear,
       threshold = 0\<rparr>]"

definition exampleEngine :: HybridParameterEngine where
  "exampleEngine =
     \<lparr>baseParameters = [], choreographyOffsets = [], reactionOffsets = [],
      manualAmount = 1, choreographyAmount = 7 / 10, reactionAmount = 1,
      routings = exampleRoutings\<rparr>"

definition exampleAudio :: AudioFrame where
  "exampleAudio =
     \<lparr>bands = [(''bass'', 4 / 10), (''mid'', 6 / 10)], bandDetails = [],
      spectralCentroid = 0, spectralRolloff = 0, spectralFlux = 0, rms = 0, onset = 0,
      onsetEvent = \<lparr>detected = False, strength = 0, time = 0\<rparr>, bpm = 120\<rparr>"


text \<open>The engine without its visualizers: what a stage never changes.\<close>

definition engineFrame :: "ChoreographyEngine \<Rightarrow> ChoreographyEngine" where
  "engineFrame e = e\<lparr>visualizers := []\<rparr>"







text \<open>A number that the power or the product of a spike keeps as it is.\<close>

definition inDoubleRange :: "real \<Rightarrow> bool" where
  "inDoubleRange x \<longleftrightarrow> underflowsAt < \<bar>x\<bar> \<and> \<bar>x\<bar> < overflowsAt"

text \<open>The spec's example of a spike, one with a negative spike and one with a small decay.\<close>

definition spikeExample :: Change where
  "spikeExample = \<lparr>change_from = None, change_to = None, easing = None,
                   spike = Some 2, decay = Some (9 / 10), jump = None\<rparr>"

definition negativeSpike :: Change where
  "negativeSpike = \<lparr>change_from = None, change_to = None, easing = None,
                    spike = Some (- 2), decay = Some (9 / 10), jump = None\<rparr>"

definition steepSpike :: Change where
  "steepSpike = \<lparr>change_from = None, change_to = None, easing = None,
                 spike = Some 2, decay = Some (1 / 10000), jump = None\<rparr>"

text \<open>A stage and a sequence of 1000 ms that hold one change of \<open>intensity\<close>.\<close>

definition stageOf :: "Change \<Rightarrow> Stage" where
  "stageOf c = \<lparr>stage_start = None, stage_duration = 1000, changes = [(''intensity'', c)]\<rparr>"

definition sequenceOf :: "Change \<Rightarrow> Sequence" where
  "sequenceOf c = \<lparr>name = ''flash'', duration = 1000, trigger = NoTrigger, stages = [stageOf c]\<rparr>"

text \<open>A JavaScript in which every text that is not modelled throws.\<close>

definition throwsOutside :: direct_eval where
  "throwsOutside items e = (Throws, e)"



definition loudFrame :: AudioFrame where
  "loudFrame =
     \<lparr>bands = [(''bass'', 9 / 10), (''mid'', 6 / 10), (''high'', 1 / 10)], bandDetails = [],
      spectralCentroid = 0, spectralRolloff = 0, spectralFlux = 0, rms = 1 / 2, onset = 0,
      onsetEvent = \<lparr>detected = False, strength = 0, time = 0\<rparr>, bpm = 120\<rparr>"



definition dropSequence :: Sequence where
  "dropSequence =
     \<lparr>name = ''drop'', duration = 1000,
      trigger = TriggerString ''bass > 0.8 && energy > 0.4'', stages = []\<rparr>"

definition dropEngine :: ChoreographyEngine where
  "dropEngine = start ((newChoreographyEngine [] None)\<lparr>sequences := [dropSequence]\<rparr>) 0"



text \<open>
  A visualizer whose live \<open>intensity\<close> is 0.8, and an interpolation from \<open>'current'\<close>
  to 1.
\<close>

definition liveVisualizer :: Visualizer where
  "liveVisualizer =
     \<lparr>hasUpdateParameter = True, params = [''intensity'' \<mapsto> Finite (8 / 10)]\<rparr>"

definition liveEngine :: ChoreographyEngine where
  "liveEngine = newChoreographyEngine [liveVisualizer] None"

definition fromCurrent :: Change where
  "fromCurrent = \<lparr>change_from = Some Current, change_to = Some (Fixed 1), easing = None,
                  spike = None, decay = None, jump = None\<rparr>"

section \<open>The tempo estimate\<close>

lemma sorted_filter_less_nth:
  fixes ys :: "real list"
  assumes "sorted ys" "k < length ys"
  shows "length (filter (\<lambda>x. x < ys ! k) ys) \<le> k"
proof -
  have split: "ys = take k ys @ drop k ys" by simp
  have "\<forall>x \<in> set (drop k ys). ys ! k \<le> x"
    using assms by (auto simp: in_set_conv_nth sorted_iff_nth_mono)
  then have "filter (\<lambda>x. x < ys ! k) (drop k ys) = []"
    by (auto simp: filter_empty_conv)
  then have "filter (\<lambda>x. x < ys ! k) ys = filter (\<lambda>x. x < ys ! k) (take k ys)"
    by (metis split filter_append append_Nil2)
  then have "length (filter (\<lambda>x. x < ys ! k) ys) \<le> length (take k ys)"
    by (metis length_filter_le)
  then show ?thesis using assms by simp
qed

lemma sorted_filter_greater_nth:
  fixes ys :: "real list"
  assumes "sorted ys" "k < length ys"
  shows "length (filter (\<lambda>x. ys ! k < x) ys) \<le> length ys - Suc k"
proof -
  have split: "ys = take (Suc k) ys @ drop (Suc k) ys" by simp
  have "\<forall>x \<in> set (take (Suc k) ys). x \<le> ys ! k"
    using assms by (auto simp: in_set_conv_nth sorted_iff_nth_mono)
  then have "filter (\<lambda>x. ys ! k < x) (take (Suc k) ys) = []"
    by (auto simp: filter_empty_conv)
  then have "filter (\<lambda>x. ys ! k < x) ys = filter (\<lambda>x. ys ! k < x) (drop (Suc k) ys)"
    by (metis split filter_append append_Nil)
  then have "length (filter (\<lambda>x. ys ! k < x) ys) \<le> length (drop (Suc k) ys)"
    by (metis length_filter_le)
  then show ?thesis by simp
qed

lemma length_filter_sort:
  fixes xs :: "real list"
  shows "length (filter P (sort xs)) = length (filter P xs)"
proof -
  have "mset (filter P (sort xs)) = mset (filter P xs)"
    by simp
  then show ?thesis by (metis size_mset)
qed

lemma length_filter_mono:
  assumes "\<And>x. P x \<Longrightarrow> Q x"
  shows "length (filter P xs) \<le> length (filter Q xs)"
  by (induction xs) (auto dest: assms)

lemma rank_of_sorted:
  fixes xs :: "real list"
  assumes "k < length xs"
  shows "hasRank xs k (sort xs ! k)"
proof -
  let ?ys = "sort xs"
  let ?m = "?ys ! k"
  have k: "k < length ?ys" using assms by simp
  have srt: "sorted ?ys" by simp
  have mem: "?m \<in> set xs"
    using k by (metis nth_mem set_sort)
  have "length (filter (\<lambda>x. x < ?m) ?ys) \<le> k"
    by (rule sorted_filter_less_nth [OF srt k])
  then have a: "length (filter (\<lambda>x. x < ?m) xs) \<le> k"
    by (simp add: length_filter_sort)
  have "length (filter (\<lambda>x. ?m < x) ?ys) \<le> length ?ys - Suc k"
    by (rule sorted_filter_greater_nth [OF srt k])
  then have b: "length (filter (\<lambda>x. ?m < x) xs) \<le> length xs - Suc k"
    by (simp add: length_filter_sort)
  have "length (filter (\<lambda>x. x \<le> ?m) xs) + length (filter (\<lambda>x. \<not> x \<le> ?m) xs) = length xs"
    by (rule sum_length_filter_compl)
  moreover have "filter (\<lambda>x. \<not> x \<le> ?m) xs = filter (\<lambda>x. ?m < x) xs"
    by (rule filter_cong) auto
  ultimately have c: "k < length (filter (\<lambda>x. x \<le> ?m) xs)"
    using b assms by simp
  from a c mem show ?thesis unfolding hasRank_def by simp
qed

lemma rank_unique:
  assumes "hasRank xs k m" "hasRank xs k m'"
  shows "m = m'"
proof -
  have no: False if r: "hasRank xs k a" "hasRank xs k b" and lt: "a < b" for a b
  proof -
    have "length (filter (\<lambda>x. x \<le> a) xs) \<le> length (filter (\<lambda>x. x < b) xs)"
      by (rule length_filter_mono) (use lt in simp)
    with r show False unfolding hasRank_def by simp
  qed
  show ?thesis
    using no [OF assms] no [OF assms(2) assms(1)] by (cases m m' rule: linorder_cases) auto
qed

lemma median_odd:
  fixes xs :: "real list"
  assumes "odd (length xs)"
  shows "median xs = sort xs ! (length xs div 2)"
  using assms by (simp add: median_def Let_def)

lemma median_even:
  fixes xs :: "real list"
  assumes "even (length xs)" "xs \<noteq> []"
  shows "median xs \<le> sort xs ! (length xs div 2)"
proof -
  let ?ys = "sort xs"
  let ?k = "length xs div 2"
  have k: "?k < length ?ys" using assms(2) by simp
  have "sorted ?ys" by simp
  then have "?ys ! (?k - 1) \<le> ?ys ! ?k"
    using k by (simp add: sorted_iff_nth_mono)
  then show ?thesis
    using assms(1) by (simp add: median_def Let_def)
qed

lemma medianInterval_10: "medianInterval [0, 10, 20, 30] = 10"
  by (simp add: medianInterval_def intervalsOf_def)

lemma medianInterval_2000: "medianInterval [0, 2000, 4000, 6000] = 2000"
  by (simp add: medianInterval_def intervalsOf_def)

lemma medianInterval_500: "medianInterval [0, 500, 1000, 1500] = 500"
  by (simp add: medianInterval_def intervalsOf_def)

lemma medianInterval_0: "medianInterval [5, 5, 5, 5] = 0"
  by (simp add: medianInterval_def intervalsOf_def)

lemma intervalsOf_uneven: "intervalsOf unevenOnsets = [250, 1000, 250, 1000]"
  by (simp add: intervalsOf_def unevenOnsets_def upt_rec)

lemma medianInterval_uneven: "medianInterval unevenOnsets = 1000"
  by (simp add: medianInterval_def intervalsOf_uneven)

text \<open>
  Claim C2, as amended. With at least four onset times, \<open>estimateBPM\<close> sets the
  estimate to 60000 divided by the value of rank \<open>\<lfloor>n / 2\<rfloor>\<close> of the \<open>n\<close> intervals between
  consecutive onsets, clamped to the range from 60 to 200; a zero value gives 200.
  That value is the only one of its rank; it is the median of the intervals when their
  number is odd, and not below the median (it is the upper one of the two middle
  values) when their number is even. With fewer than four onsets the estimate stays as
  it was, and it is 120 in a new analyzer.
\<close>

theorem estimateBPM_upper_median_clamped:
  "(4 \<le> length (onsetHistory s) \<longrightarrow>
      hasRank (intervalsOf (onsetHistory s)) (length (intervalsOf (onsetHistory s)) div 2)
        (medianInterval (onsetHistory s)) \<and>
      (\<forall>m. hasRank (intervalsOf (onsetHistory s)) (length (intervalsOf (onsetHistory s)) div 2) m
           \<longrightarrow> m = medianInterval (onsetHistory s)) \<and>
      (odd (length (intervalsOf (onsetHistory s))) \<longrightarrow>
         medianInterval (onsetHistory s) = median (intervalsOf (onsetHistory s))) \<and>
      (even (length (intervalsOf (onsetHistory s))) \<longrightarrow>
         median (intervalsOf (onsetHistory s)) \<le> medianInterval (onsetHistory s)) \<and>
      (medianInterval (onsetHistory s) \<noteq> 0 \<longrightarrow>
         estimatedBPM (snd (estimateBPM s)) =
           max 60 (min 200 (60000 / medianInterval (onsetHistory s)))) \<and>
      (medianInterval (onsetHistory s) = 0 \<longrightarrow> estimatedBPM (snd (estimateBPM s)) = 200) \<and>
      60 \<le> estimatedBPM (snd (estimateBPM s)) \<and> estimatedBPM (snd (estimateBPM s)) \<le> 200 \<and>
      fst (estimateBPM s) = estimatedBPM (snd (estimateBPM s))) \<and>
   (length (onsetHistory s) < 4 \<longrightarrow> estimatedBPM (snd (estimateBPM s)) = estimatedBPM s) \<and>
   estimatedBPM (newAudioAnalyzer rate n smoothing thr maxHistory) = 120"
proof -
  let ?iv = "intervalsOf (onsetHistory s)"
  let ?k = "length ?iv div 2"
  have mi: "medianInterval (onsetHistory s) = sort ?iv ! ?k"
    by (simp add: medianInterval_def Let_def)
  have ne: "?iv \<noteq> []" if "4 \<le> length (onsetHistory s)"
  proof -
    have "length ?iv = length (onsetHistory s) - 1"
      by (simp add: intervalsOf_def)
    with that show ?thesis by auto
  qed
  have rk: "hasRank ?iv ?k (medianInterval (onsetHistory s))" if "4 \<le> length (onsetHistory s)"
    unfolding mi using ne [OF that] by (intro rank_of_sorted) simp
  have un: "\<forall>m. hasRank ?iv ?k m \<longrightarrow> m = medianInterval (onsetHistory s)"
    if "4 \<le> length (onsetHistory s)"
    using rank_unique [OF _ rk [OF that]] by blast
  have od: "medianInterval (onsetHistory s) = median ?iv" if "odd (length ?iv)"
    unfolding mi using median_odd [OF that] by simp
  have ev: "median ?iv \<le> medianInterval (onsetHistory s)"
    if "even (length ?iv)" "4 \<le> length (onsetHistory s)"
    unfolding mi using that(1) ne [OF that(2)] by (rule median_even)
  have est: "(medianInterval (onsetHistory s) \<noteq> 0 \<longrightarrow>
         estimatedBPM (snd (estimateBPM s)) =
           max 60 (min 200 (60000 / medianInterval (onsetHistory s)))) \<and>
      (medianInterval (onsetHistory s) = 0 \<longrightarrow> estimatedBPM (snd (estimateBPM s)) = 200) \<and>
      60 \<le> estimatedBPM (snd (estimateBPM s)) \<and> estimatedBPM (snd (estimateBPM s)) \<le> 200 \<and>
      fst (estimateBPM s) = estimatedBPM (snd (estimateBPM s))"
    if "4 \<le> length (onsetHistory s)"
    using that by (simp add: estimateBPM_def Let_def)
  have few: "length (onsetHistory s) < 4 \<longrightarrow> estimatedBPM (snd (estimateBPM s)) = estimatedBPM s"
    by (simp add: estimateBPM_def)
  have new: "estimatedBPM (newAudioAnalyzer rate n smoothing thr maxHistory) = 120"
    by (simp add: newAudioAnalyzer_def)
  from rk un od ev est few new show ?thesis by blast
qed

theorem estimateBPM_upper_median_clamped_witness:
  "estimatedBPM (snd (estimateBPM (defaultAudioAnalyzer\<lparr>onsetHistory := [0, 10, 20, 30]\<rparr>))) = 200 \<and>
   estimatedBPM (snd (estimateBPM (defaultAudioAnalyzer\<lparr>onsetHistory := [0, 2000, 4000, 6000]\<rparr>)))
     = 60 \<and>
   estimatedBPM (snd (estimateBPM (defaultAudioAnalyzer\<lparr>onsetHistory := [0, 500, 1000, 1500]\<rparr>)))
     = 120 \<and>
   estimatedBPM (snd (estimateBPM (defaultAudioAnalyzer\<lparr>onsetHistory := [5, 5, 5, 5]\<rparr>))) = 200 \<and>
   estimatedBPM (snd (estimateBPM
     (defaultAudioAnalyzer\<lparr>onsetHistory := [0, 300, 600], estimatedBPM := 150\<rparr>))) = 150 \<and>
   hasRank (intervalsOf unevenOnsets) 2 1000 \<and>
   \<not> hasRank (intervalsOf unevenOnsets) 2 250 \<and>
   estimatedBPM (snd (estimateBPM (defaultAudioAnalyzer\<lparr>onsetHistory := unevenOnsets\<rparr>))) = 60"
proof -
  have u: "onsetHistory (defaultAudioAnalyzer\<lparr>onsetHistory := unevenOnsets\<rparr>) = unevenOnsets"
    by simp
  have l: "4 \<le> length unevenOnsets" "length (intervalsOf unevenOnsets) div 2 = 2"
    by (simp_all add: unevenOnsets_def intervalsOf_def)
  from estimateBPM_upper_median_clamped [of "defaultAudioAnalyzer\<lparr>onsetHistory := unevenOnsets\<rparr>"]
  have r: "hasRank (intervalsOf unevenOnsets) 2 1000 \<and>
      (\<forall>m. hasRank (intervalsOf unevenOnsets) 2 m \<longrightarrow> m = 1000) \<and>
      estimatedBPM (snd (estimateBPM (defaultAudioAnalyzer\<lparr>onsetHistory := unevenOnsets\<rparr>))) = 60"
    unfolding u using l by (simp add: medianInterval_uneven)
  then have n: "\<not> hasRank (intervalsOf unevenOnsets) 2 250"
    by force
  from estimateBPM_upper_median_clamped [of "defaultAudioAnalyzer\<lparr>onsetHistory := [0, 10, 20, 30]\<rparr>"]
        estimateBPM_upper_median_clamped
          [of "defaultAudioAnalyzer\<lparr>onsetHistory := [0, 2000, 4000, 6000]\<rparr>"]
        estimateBPM_upper_median_clamped
          [of "defaultAudioAnalyzer\<lparr>onsetHistory := [0, 500, 1000, 1500]\<rparr>"]
        estimateBPM_upper_median_clamped [of "defaultAudioAnalyzer\<lparr>onsetHistory := [5, 5, 5, 5]\<rparr>"]
        estimateBPM_upper_median_clamped
          [of "defaultAudioAnalyzer\<lparr>onsetHistory := [0, 300, 600], estimatedBPM := 150\<rparr>"]
  have "estimatedBPM (snd (estimateBPM (defaultAudioAnalyzer\<lparr>onsetHistory := [0, 10, 20, 30]\<rparr>))) = 200 \<and>
   estimatedBPM (snd (estimateBPM (defaultAudioAnalyzer\<lparr>onsetHistory := [0, 2000, 4000, 6000]\<rparr>)))
     = 60 \<and>
   estimatedBPM (snd (estimateBPM (defaultAudioAnalyzer\<lparr>onsetHistory := [0, 500, 1000, 1500]\<rparr>)))
     = 120 \<and>
   estimatedBPM (snd (estimateBPM (defaultAudioAnalyzer\<lparr>onsetHistory := [5, 5, 5, 5]\<rparr>))) = 200 \<and>
   estimatedBPM (snd (estimateBPM
     (defaultAudioAnalyzer\<lparr>onsetHistory := [0, 300, 600], estimatedBPM := 150\<rparr>))) = 150"
    by (simp add: medianInterval_10 medianInterval_2000 medianInterval_500 medianInterval_0
      defaultAudioAnalyzer_def newAudioAnalyzer_def)
  with r n show ?thesis by blast
qed

text \<open>
  Onsets 250 ms and 1000 ms apart in turn: the median of the four intervals is 625 ms,
  which gives 96 beats per minute, and \<open>estimateBPM\<close> takes 1000 ms and sets 60.
\<close>

theorem estimateBPM_even_count_counterexample:
  "intervalsOf unevenOnsets = [250, 1000, 250, 1000] \<and>
   median (intervalsOf unevenOnsets) = 625 \<and>
   max 60 (min 200 (60000 / median (intervalsOf unevenOnsets))) = 96 \<and>
   estimatedBPM (snd (estimateBPM (defaultAudioAnalyzer\<lparr>onsetHistory := unevenOnsets\<rparr>))) = 60"
proof -
  have m: "median (intervalsOf unevenOnsets) = 625"
    by (simp add: intervalsOf_uneven median_def)
  have l: "\<not> length unevenOnsets < 4"
    by (simp add: unevenOnsets_def)
  have e: "estimatedBPM (snd (estimateBPM (defaultAudioAnalyzer\<lparr>onsetHistory := unevenOnsets\<rparr>))) = 60"
    by (simp add: estimateBPM_def l medianInterval_uneven)
  from intervalsOf_uneven m e show ?thesis by simp
qed

section \<open>The onset detector\<close>

lemma spaced_tl: "spaced xs \<Longrightarrow> spaced (tl xs)"
  by (cases xs) (simp_all add: spaced_def)

lemma spaced_snoc:
  "spaced xs \<Longrightarrow> \<forall>x \<in> set xs. now - x > 100 \<Longrightarrow> spaced (xs @ [now])"
  by (simp add: spaced_def sorted_wrt_append)

lemma set_tl_subset: "x \<in> set (tl xs) \<Longrightarrow> x \<in> set xs"
  by (cases xs) simp_all

lemma detectOnset_inv:
  assumes "onsetInv s"
  shows "onsetInv (snd (detectOnset s now))"
proof (cases "this_spectralFlux s > onsetThreshold s \<and> now - lastOnsetTime s > 100")
  case True
  have sp: "spaced (onsetHistory s @ [now])"
  proof (rule spaced_snoc)
    show "spaced (onsetHistory s)" using assms by (simp add: onsetInv_def)
    show "\<forall>x \<in> set (onsetHistory s). now - x > 100"
      using assms True by (fastforce simp: onsetInv_def)
  qed
  have le: "\<forall>x \<in> set (onsetHistory s @ [now]). x \<le> now"
    using assms True by (fastforce simp: onsetInv_def)
  have le_tl: "\<forall>x \<in> set (tl (onsetHistory s @ [now])). x \<le> now"
    using le by (blast dest: set_tl_subset)
  show ?thesis
    using True sp le le_tl spaced_tl [OF sp]
    by (simp add: detectOnset_def Let_def onsetInv_def)
next
  case False
  then show ?thesis
    using assms by (auto simp: detectOnset_def Let_def onsetInv_def)
qed

lemma detectOnsets_inv: "onsetInv s \<Longrightarrow> onsetInv (detectOnsets s frames)"
proof (induction frames arbitrary: s)
  case Nil
  then show ?case by simp
next
  case (Cons fr frames)
  obtain flux now where fr: "fr = (flux, now)" by (cases fr)
  have "onsetInv (s\<lparr>this_spectralFlux := flux\<rparr>)"
    using Cons.prems by (simp add: onsetInv_def)
  then have "onsetInv (snd (detectOnset (s\<lparr>this_spectralFlux := flux\<rparr>) now))"
    by (rule detectOnset_inv)
  then show ?case
    using Cons.IH fr by simp
qed

lemma spaced_window:
  "spaced xs \<Longrightarrow> length (filter (\<lambda>x. t \<le> x \<and> x \<le> t + 100) xs) \<le> 1"
proof (induction xs)
  case Nil
  then show ?case by simp
next
  case (Cons x xs)
  have tail: "spaced xs" and gap: "\<forall>y \<in> set xs. y - x > 100"
    using Cons.prems by (simp_all add: spaced_def)
  show ?case
  proof (cases "t \<le> x \<and> x \<le> t + 100")
    case True
    have "\<forall>y \<in> set xs. \<not> (t \<le> y \<and> y \<le> t + 100)"
      using gap True by fastforce
    then have "filter (\<lambda>x. t \<le> x \<and> x \<le> t + 100) xs = []"
      by (simp add: filter_empty_conv)
    with True show ?thesis by simp
  next
    case False
    with Cons.IH [OF tail] show ?thesis by auto
  qed
qed

lemma new_onsetInv: "onsetInv (newAudioAnalyzer rate n b thr mx)"
  by (simp add: onsetInv_def newAudioAnalyzer_def spaced_def)

lemma detectOnset_capped:
  "real (length (onsetHistory s)) \<le> maxOnsetHistory s \<Longrightarrow>
   real (length (onsetHistory (snd (detectOnset s now))))
     \<le> maxOnsetHistory (snd (detectOnset s now))"
  by (auto simp: detectOnset_def Let_def)

lemma detectOnsets_capped:
  "real (length (onsetHistory s)) \<le> maxOnsetHistory s \<Longrightarrow>
   real (length (onsetHistory (detectOnsets s frames))) \<le> maxOnsetHistory (detectOnsets s frames)"
proof (induction frames arbitrary: s)
  case Nil
  then show ?case by simp
next
  case (Cons fr frames)
  obtain flux now where fr: "fr = (flux, now)" by (cases fr)
  have "real (length (onsetHistory (s\<lparr>this_spectralFlux := flux\<rparr>)))
          \<le> maxOnsetHistory (s\<lparr>this_spectralFlux := flux\<rparr>)"
    using Cons.prems by simp
  from detectOnset_capped [OF this] show ?case
    using Cons.IH fr by simp
qed

lemma detectOnset_max: "maxOnsetHistory (snd (detectOnset s now)) = maxOnsetHistory s"
  by (simp add: detectOnset_def Let_def)

lemma detectOnsets_max: "maxOnsetHistory (detectOnsets s frames) = maxOnsetHistory s"
  by (induction frames arbitrary: s) (auto simp: detectOnset_max)

lemma features_onsets:
  "onsetHistory (calcRMS s) = onsetHistory s \<and> lastOnsetTime (calcRMS s) = lastOnsetTime s
     \<and> maxOnsetHistory (calcRMS s) = maxOnsetHistory s"
  "onsetHistory (calcSpectralFlux s) = onsetHistory s \<and> lastOnsetTime (calcSpectralFlux s) = lastOnsetTime s
     \<and> maxOnsetHistory (calcSpectralFlux s) = maxOnsetHistory s"
  "onsetHistory (calcSpectralRolloff s) = onsetHistory s \<and> lastOnsetTime (calcSpectralRolloff s) = lastOnsetTime s
     \<and> maxOnsetHistory (calcSpectralRolloff s) = maxOnsetHistory s"
  "onsetHistory (calcSpectralCentroid s) = onsetHistory s \<and> lastOnsetTime (calcSpectralCentroid s) = lastOnsetTime s
     \<and> maxOnsetHistory (calcSpectralCentroid s) = maxOnsetHistory s"
  "onsetHistory (analyzeBands s) = onsetHistory s \<and> lastOnsetTime (analyzeBands s) = lastOnsetTime s
     \<and> maxOnsetHistory (analyzeBands s) = maxOnsetHistory s"
  by (simp_all add: calcRMS_def calcSpectralFlux_def calcSpectralRolloff_def
      calcSpectralCentroid_def analyzeBands_def Let_def)

lemma estimateBPM_onsets:
  "onsetHistory (snd (estimateBPM s)) = onsetHistory s"
  "lastOnsetTime (snd (estimateBPM s)) = lastOnsetTime s"
  "maxOnsetHistory (snd (estimateBPM s)) = maxOnsetHistory s"
  by (simp_all add: estimateBPM_def Let_def)

lemma onsets_cong:
  assumes "onsetHistory s' = onsetHistory s" "lastOnsetTime s' = lastOnsetTime s"
    "maxOnsetHistory s' = maxOnsetHistory s"
  shows "cappedInv s' = cappedInv s"
  by (simp add: cappedInv_def onsetInv_def assms)

lemma detectOnset_cappedInv: "cappedInv s \<Longrightarrow> cappedInv (snd (detectOnset s now))"
  unfolding cappedInv_def
proof (intro conjI)
  assume a: "onsetInv s \<and> real (length (onsetHistory s)) \<le> max 0 (maxOnsetHistory s)"
  then show "onsetInv (snd (detectOnset s now))" by (simp add: detectOnset_inv)
  from a show "real (length (onsetHistory (snd (detectOnset s now))))
      \<le> max 0 (maxOnsetHistory (snd (detectOnset s now)))"
    by (auto simp: detectOnset_def Let_def)
qed

lemma analyze_cappedInv:
  assumes "cappedInv s"
  shows "cappedInv (snd (analyze s p now))"
proof (cases p)
  case FrequencyThrows
  then show ?thesis using assms by (simp add: analyze_def)
next
  case (TimeDomainThrows f)
  have "cappedInv (s\<lparr>freqData := fillBuffer f (freqData s)\<rparr>) = cappedInv s"
    by (rule onsets_cong) simp_all
  then show ?thesis using assms TimeDomainThrows by (simp add: analyze_def Let_def)
next
  case (Pulled f t)
  define s1 where
    "s1 = s\<lparr>freqData := fillBuffer f (freqData s), timeData := fillBuffer t (timeData s)\<rparr>"
  define s2 where
    "s2 = calcRMS (calcSpectralFlux (calcSpectralRolloff (calcSpectralCentroid (analyzeBands s1))))"
  define s3 where "s3 = snd (detectOnset s2 now)"
  define s4 where "s4 = (if length (onsetHistory s3) \<ge> 4 then snd (estimateBPM s3) else s3)"
  have out: "snd (analyze s p now) = (if \<not> analyser s then s else s4\<lparr>prevFreqData := freqData s4\<rparr>)"
    unfolding analyze_def Pulled pull.case Let_def case_prod_beta s4_def s3_def s2_def s1_def
    by simp
  have "cappedInv s2 = cappedInv s"
    by (rule onsets_cong) (simp_all add: s2_def s1_def features_onsets)
  then have "cappedInv s3"
    using assms by (simp add: s3_def detectOnset_cappedInv)
  moreover have "cappedInv s4 = cappedInv s3"
    by (rule onsets_cong) (simp_all add: s4_def estimateBPM_onsets)
  moreover have "cappedInv (s4\<lparr>prevFreqData := freqData s4\<rparr>) = cappedInv s4"
    by (rule onsets_cong) simp_all
  ultimately show ?thesis
    using assms by (simp add: out)
qed

lemma produced_cappedInv: "produced s \<Longrightarrow> cappedInv s"
proof (induction rule: produced.induct)
  case (constructed rate n bandSmoothing thr maxHistory)
  then show ?case
    by (simp add: cappedInv_def new_onsetInv) (simp add: newAudioAnalyzer_def)
next
  case (analyzed s p now)
  from analyzed.IH show ?case by (rule analyze_cappedInv)
qed

lemma every40_history:
  "onsetHistory (detectOnsets defaultAudioAnalyzer every40) = [120, 240, 360]"
  by (simp add: every40_def defaultAudioAnalyzer_def newAudioAnalyzer_def detectOnset_def Let_def)

text \<open>
  Claim C6, as amended. \<open>detectOnset\<close> fires exactly when the spectral flux exceeds
  the threshold and strictly more than 100 ms have passed since \<open>lastOnsetTime\<close>, which
  is 0 before the first onset. When it fires it returns a detected event of the flux's
  strength at the time of the call, records the time and appends it to the history,
  dropping the oldest entry when the history exceeds its cap; otherwise it returns an
  event that is not detected and leaves the time and the history as they were. From a
  new analyzer, whatever the frames, the history never exceeds the cap and no window
  of 100 ms holds more than one recorded onset: for every run of the detector, and
  in every analyzer that calls of \<open>analyze\<close> produce.
\<close>

theorem detectOnset_refractory:
  "(detected (fst (detectOnset s now)) \<longleftrightarrow>
      this_spectralFlux s > onsetThreshold s \<and> now - lastOnsetTime s > 100) \<and>
   (detected (fst (detectOnset s now)) \<longrightarrow>
      fst (detectOnset s now) = \<lparr>detected = True, strength = this_spectralFlux s, time = now\<rparr> \<and>
      lastOnsetTime (snd (detectOnset s now)) = now \<and>
      onsetHistory (snd (detectOnset s now)) =
        (if real (length (onsetHistory s)) + 1 > maxOnsetHistory s
         then tl (onsetHistory s @ [now]) else onsetHistory s @ [now])) \<and>
   (\<not> detected (fst (detectOnset s now)) \<longrightarrow>
      fst (detectOnset s now) = \<lparr>detected = False, strength = this_spectralFlux s, time = now\<rparr> \<and>
      lastOnsetTime (snd (detectOnset s now)) = lastOnsetTime s \<and>
      onsetHistory (snd (detectOnset s now)) = onsetHistory s) \<and>
   (0 \<le> mx \<longrightarrow>
      real (length (onsetHistory (detectOnsets (newAudioAnalyzer rate n b thr mx) frames))) \<le> mx) \<and>
   length (filter (\<lambda>x. t \<le> x \<and> x \<le> t + 100)
             (onsetHistory (detectOnsets (newAudioAnalyzer rate n b thr mx) frames))) \<le> 1 \<and>
   (produced s \<longrightarrow>
      real (length (onsetHistory s)) \<le> max 0 (maxOnsetHistory s) \<and>
      length (filter (\<lambda>x. t \<le> x \<and> x \<le> t + 100) (onsetHistory s)) \<le> 1)"
proof -
  have step: "(detected (fst (detectOnset s now)) \<longleftrightarrow>
      this_spectralFlux s > onsetThreshold s \<and> now - lastOnsetTime s > 100) \<and>
   (detected (fst (detectOnset s now)) \<longrightarrow>
      fst (detectOnset s now) = \<lparr>detected = True, strength = this_spectralFlux s, time = now\<rparr> \<and>
      lastOnsetTime (snd (detectOnset s now)) = now \<and>
      onsetHistory (snd (detectOnset s now)) =
        (if real (length (onsetHistory s)) + 1 > maxOnsetHistory s
         then tl (onsetHistory s @ [now]) else onsetHistory s @ [now])) \<and>
   (\<not> detected (fst (detectOnset s now)) \<longrightarrow>
      fst (detectOnset s now) = \<lparr>detected = False, strength = this_spectralFlux s, time = now\<rparr> \<and>
      lastOnsetTime (snd (detectOnset s now)) = lastOnsetTime s \<and>
      onsetHistory (snd (detectOnset s now)) = onsetHistory s)"
    by (simp add: detectOnset_def Let_def)
  have cap: "real (length (onsetHistory (detectOnsets (newAudioAnalyzer rate n b thr mx) frames))) \<le> mx"
    if "0 \<le> mx"
  proof -
    have "real (length (onsetHistory (newAudioAnalyzer rate n b thr mx)))
            \<le> maxOnsetHistory (newAudioAnalyzer rate n b thr mx)"
      using that by (simp add: newAudioAnalyzer_def)
    from detectOnsets_capped [OF this] show ?thesis
      by (simp add: detectOnsets_max) (simp add: newAudioAnalyzer_def)
  qed
  have "onsetInv (detectOnsets (newAudioAnalyzer rate n b thr mx) frames)"
    by (rule detectOnsets_inv [OF new_onsetInv])
  then have "spaced (onsetHistory (detectOnsets (newAudioAnalyzer rate n b thr mx) frames))"
    by (simp add: onsetInv_def)
  from spaced_window [OF this]
  have run: "length (filter (\<lambda>x. t \<le> x \<and> x \<le> t + 100)
             (onsetHistory (detectOnsets (newAudioAnalyzer rate n b thr mx) frames))) \<le> 1" .
  have prod: "real (length (onsetHistory s)) \<le> max 0 (maxOnsetHistory s) \<and>
      length (filter (\<lambda>x. t \<le> x \<and> x \<le> t + 100) (onsetHistory s)) \<le> 1"
    if "produced s"
  proof -
    from produced_cappedInv [OF that]
    have "spaced (onsetHistory s)"
      and "real (length (onsetHistory s)) \<le> max 0 (maxOnsetHistory s)"
      by (simp_all add: cappedInv_def onsetInv_def)
    with spaced_window [of "onsetHistory s" t] show ?thesis by simp
  qed
  from run step cap prod show ?thesis
    by blast
qed

theorem detectOnset_refractory_witness:
  "detected (fst (detectOnset (defaultAudioAnalyzer\<lparr>this_spectralFlux := 1 / 2\<rparr>) 120)) \<and>
   onsetHistory (snd (detectOnset (defaultAudioAnalyzer\<lparr>this_spectralFlux := 1 / 2\<rparr>) 120)) = [120] \<and>
   \<not> detected (fst (detectOnset (defaultAudioAnalyzer\<lparr>this_spectralFlux := 1 / 2\<rparr>) 40)) \<and>
   onsetHistory (snd (detectOnset (defaultAudioAnalyzer\<lparr>this_spectralFlux := 1 / 2\<rparr>) 40)) = [] \<and>
   onsetHistory (detectOnsets defaultAudioAnalyzer every40) = [120, 240, 360] \<and>
   real (length (onsetHistory (detectOnsets defaultAudioAnalyzer every40))) \<le> 32 \<and>
   length (filter (\<lambda>x. 150 \<le> x \<and> x \<le> 150 + 100)
             (onsetHistory (detectOnsets defaultAudioAnalyzer every40))) \<le> 1 \<and>
   produced (snd (analyze defaultAudioAnalyzer FrequencyThrows 5)) \<and>
   real (length (onsetHistory (snd (analyze defaultAudioAnalyzer FrequencyThrows 5)))) \<le> 32"
proof -
  let ?s = "defaultAudioAnalyzer\<lparr>this_spectralFlux := 1 / 2\<rparr>"
  let ?p = "snd (analyze defaultAudioAnalyzer FrequencyThrows 5)"
  have p: "produced ?p"
    unfolding defaultAudioAnalyzer_def by (intro produced.intros)
  have pm: "maxOnsetHistory ?p = 32"
    by (simp add: analyze_def defaultAudioAnalyzer_def newAudioAnalyzer_def)
  have d: "real (length (onsetHistory ?p)) \<le> 32"
    using detectOnset_refractory [where s = ?p] p pm by simp
  have flux: "this_spectralFlux ?s > onsetThreshold ?s" and last: "lastOnsetTime ?s = 0"
    and hist: "onsetHistory ?s = []" and mx: "maxOnsetHistory ?s = 32"
    by (simp_all add: defaultAudioAnalyzer_def newAudioAnalyzer_def)
  have a: "detected (fst (detectOnset ?s 120)) \<and> onsetHistory (snd (detectOnset ?s 120)) = [120]"
    using detectOnset_refractory [where s = ?s and now = 120] flux last hist mx
    by simp
  have b: "\<not> detected (fst (detectOnset ?s 40)) \<and> onsetHistory (snd (detectOnset ?s 40)) = []"
    using detectOnset_refractory [where s = ?s and now = 40] flux last hist
    by simp
  have c: "real (length (onsetHistory (detectOnsets defaultAudioAnalyzer every40))) \<le> 32 \<and>
      length (filter (\<lambda>x. 150 \<le> x \<and> x \<le> 150 + 100)
             (onsetHistory (detectOnsets defaultAudioAnalyzer every40))) \<le> 1"
    using detectOnset_refractory [where mx = 32 and rate = 44100 and n = 1024 and b = "8 / 10"
        and thr = "15 / 100" and frames = every40 and t = 150]
    by (simp add: defaultAudioAnalyzer_def)
  from a b c d p every40_history show ?thesis by blast
qed

theorem detectOnset_at_100ms_counterexample:
  "onsetHistory (detectOnsets defaultAudioAnalyzer [(1 / 2, 1000)]) = [1000] \<and>
   lastOnsetTime (detectOnsets defaultAudioAnalyzer [(1 / 2, 1000)]) = 1000 \<and>
   1 / 2 > onsetThreshold (detectOnsets defaultAudioAnalyzer [(1 / 2, 1000)]) \<and>
   1100 - lastOnsetTime (detectOnsets defaultAudioAnalyzer [(1 / 2, 1000)]) \<ge> 100 \<and>
   \<not> detected (fst (detectOnset
        ((detectOnsets defaultAudioAnalyzer [(1 / 2, 1000)])\<lparr>this_spectralFlux := 1 / 2\<rparr>) 1100))"
  by (simp add: defaultAudioAnalyzer_def newAudioAnalyzer_def detectOnset_def Let_def)

section \<open>The silent frame\<close>

lemma detectOnset_bands: "smoothedBands (snd (detectOnset s now)) = smoothedBands s"
  by (simp add: detectOnset_def Let_def)

lemma estimateBPM_bands: "smoothedBands (snd (estimateBPM s)) = smoothedBands s"
  by (simp add: estimateBPM_def Let_def)

lemma features_bands:
  "smoothedBands (calcRMS s) = smoothedBands s"
  "smoothedBands (calcSpectralFlux s) = smoothedBands s"
  "smoothedBands (calcSpectralRolloff s) = smoothedBands s"
  "smoothedBands (calcSpectralCentroid s) = smoothedBands s"
  by (simp_all add: calcRMS_def calcSpectralFlux_def calcSpectralRolloff_def
      calcSpectralCentroid_def Let_def)

lemma analyzeBands_names: "map fst (smoothedBands (analyzeBands s)) = map fst (smoothedBands s)"
  by (simp add: analyzeBands_def comp_def case_prod_beta)

lemma analyze_band_names:
  "map fst (smoothedBands (snd (analyze s p now))) = map fst (smoothedBands s)"
proof (cases p)
  case FrequencyThrows
  then show ?thesis by (simp add: analyze_def)
next
  case (TimeDomainThrows f)
  then show ?thesis by (simp add: analyze_def Let_def)
next
  case (Pulled f t)
  define s1 where
    "s1 = s\<lparr>freqData := fillBuffer f (freqData s), timeData := fillBuffer t (timeData s)\<rparr>"
  define s2 where
    "s2 = calcRMS (calcSpectralFlux (calcSpectralRolloff (calcSpectralCentroid (analyzeBands s1))))"
  define s3 where "s3 = snd (detectOnset s2 now)"
  define s4 where "s4 = (if length (onsetHistory s3) \<ge> 4 then snd (estimateBPM s3) else s3)"
  have out: "snd (analyze s p now) = (if \<not> analyser s then s else s4\<lparr>prevFreqData := freqData s4\<rparr>)"
    unfolding analyze_def Pulled pull.case Let_def case_prod_beta s4_def s3_def s2_def s1_def
    by simp
  have "map fst (smoothedBands s4) = map fst (smoothedBands s)"
    by (simp add: s4_def s3_def s2_def s1_def estimateBPM_bands detectOnset_bands
        features_bands analyzeBands_names)
  then show ?thesis
    by (simp add: out)
qed

text \<open>
  Claim C5. When the analyser node is missing, or a read of it throws, \<open>analyze\<close>
  returns a frame and raises nothing: every band value of the frame is zero, for the
  eight bands of the constructor, and so are the spectral centroid, rolloff and flux,
  the rms and the onset strength; the onset event is not detected and has strength
  zero. The frame's bpm is the current estimate, and the band details keep the ranges.
\<close>

theorem analyze_silent_when_unavailable:
  assumes "\<not> analyser s \<or> p = FrequencyThrows \<or> p = TimeDomainThrows f"
  shows
    "bands (fst (analyze s p now)) = map (\<lambda>(n, band). (n, 0)) (smoothedBands s) \<and>
     bandDetails (fst (analyze s p now)) =
       map (\<lambda>(n, band). (n, low band, high band, 0)) (smoothedBands s) \<and>
     spectralCentroid (fst (analyze s p now)) = 0 \<and>
     spectralRolloff (fst (analyze s p now)) = 0 \<and>
     spectralFlux (fst (analyze s p now)) = 0 \<and>
     rms (fst (analyze s p now)) = 0 \<and>
     onset (fst (analyze s p now)) = 0 \<and>
     onsetEvent (fst (analyze s p now)) = \<lparr>detected = False, strength = 0, time = now\<rparr> \<and>
     bpm (fst (analyze s p now)) = estimatedBPM s \<and>
     (map fst (smoothedBands s) = map fst canonicalBands \<longrightarrow>
        map fst (bands (fst (analyze s p now))) =
          [''subBass'', ''bass'', ''lowMid'', ''mid'', ''highMid'', ''high'', ''air'',
           ''ultraHigh'']) \<and>
     map fst (smoothedBands (snd (analyze s p now))) = map fst (smoothedBands s)"
proof -
  have nm: "map fst (map (\<lambda>(n, band). (n, 0::real)) xs) = map fst xs"
    for xs :: "(string \<times> Band) list"
    by (induction xs) auto
  have names: "map fst canonicalBands =
      [''subBass'', ''bass'', ''lowMid'', ''mid'', ''highMid'', ''high'', ''air'', ''ultraHigh'']"
    by (simp add: canonicalBands_def)
  have fr: "fst (analyze s p now) = createSilentFrame s now"
    using assms by (cases p) (auto simp: analyze_def Let_def createSilentFrame_def)
  show ?thesis
    unfolding fr using analyze_band_names [of s p now]
    by (simp add: createSilentFrame_def nm names del: map_map)
qed

theorem analyze_silent_when_unavailable_witness:
  "bands (fst (analyze defaultAudioAnalyzer FrequencyThrows 5)) =
     [(''subBass'', 0), (''bass'', 0), (''lowMid'', 0), (''mid'', 0), (''highMid'', 0),
      (''high'', 0), (''air'', 0), (''ultraHigh'', 0)] \<and>
   rms (fst (analyze defaultAudioAnalyzer FrequencyThrows 5)) = 0 \<and>
   onsetEvent (fst (analyze defaultAudioAnalyzer FrequencyThrows 5))
     = \<lparr>detected = False, strength = 0, time = 5\<rparr> \<and>
   bpm (fst (analyze defaultAudioAnalyzer FrequencyThrows 5)) = 120"
proof -
  have sb: "smoothedBands defaultAudioAnalyzer = canonicalBands"
    and bp: "estimatedBPM defaultAudioAnalyzer = 120"
    by (simp_all add: defaultAudioAnalyzer_def newAudioAnalyzer_def)
  have "\<not> analyser defaultAudioAnalyzer \<or> FrequencyThrows = FrequencyThrows
      \<or> FrequencyThrows = TimeDomainThrows (\<lambda>i. 0)"
    by simp
  from analyze_silent_when_unavailable [OF this, of 5] show ?thesis
    by (simp add: sb bp canonicalBands_def)
qed

section \<open>The bass momentum\<close>

text \<open>
  Claim C3, as amended. Each update of the \<open>bass_momentum\<close> pattern adds 0.3 times
  the bass to \<open>momentum.zw\<close> and 0.1 times the bass to \<open>momentum.xw\<close> only when the
  bass exceeds 0.6, and then multiplies every component by the decay factor, on the
  tick of the accumulation as on every other. From zero momentum the bass sequence
  0.9, 0, 0, 0, 0 with the decay 0.98 gives \<open>momentum.zw\<close> 0.2646, 0.259308,
  0.25412184, 0.2490394032, 0.244058615136, that is about 0.2646, 0.2593, 0.2541,
  0.2490, 0.2441.
\<close>

theorem bass_momentum_accumulates_then_decays:
  "snd (bass_momentum_update m b d) =
     \<lparr>xw = (if b > 6 / 10 then xw m + b * (1 / 10) else xw m) * d,
      yw = yw m * d,
      zw = (if b > 6 / 10 then zw m + b * (3 / 10) else zw m) * d\<rparr> \<and>
   map zw (bass_momentum_run zeroMomentum (98 / 100) [9 / 10, 0, 0, 0, 0]) =
     [2646 / 10000, 259308 / 1000000, 25412184 / 100000000, 2490394032 / 10000000000,
      244058615136 / 1000000000000] \<and>
   list_all2 (\<lambda>v a. \<bar>v - a\<bar> \<le> 5 / 100000)
     (map zw (bass_momentum_run zeroMomentum (98 / 100) [9 / 10, 0, 0, 0, 0]))
     [2646 / 10000, 2593 / 10000, 2541 / 10000, 2490 / 10000, 2441 / 10000]"
proof -
  have run: "map zw (bass_momentum_run zeroMomentum (98 / 100) [9 / 10, 0, 0, 0, 0]) =
     [2646 / 10000, 259308 / 1000000, 25412184 / 100000000, 2490394032 / 10000000000,
      244058615136 / 1000000000000]"
    by (simp add: bass_momentum_update_def Let_def zeroMomentum_def)
  show ?thesis
    unfolding run by (simp add: bass_momentum_update_def Let_def)
qed

theorem bass_momentum_accumulates_then_decays_witness:
  "zw (snd (bass_momentum_update zeroMomentum (9 / 10) (98 / 100))) = 2646 / 10000 \<and>
   xw (snd (bass_momentum_update zeroMomentum (9 / 10) (98 / 100))) = 882 / 10000 \<and>
   zw (snd (bass_momentum_update \<lparr>xw = 0, yw = 0, zw = 2646 / 10000\<rparr> (1 / 2) (98 / 100)))
     = 259308 / 1000000"
  using bass_momentum_accumulates_then_decays [of zeroMomentum "9 / 10" "98 / 100"]
        bass_momentum_accumulates_then_decays
          [of "\<lparr>xw = 0, yw = 0, zw = 2646 / 10000\<rparr>" "1 / 2" "98 / 100"]
  by (simp add: zeroMomentum_def)

theorem bass_momentum_first_tick_counterexample:
  "zw (snd (bass_momentum_update zeroMomentum (9 / 10) (98 / 100))) = 2646 / 10000 \<and>
   \<not> \<bar>zw (snd (bass_momentum_update zeroMomentum (9 / 10) (98 / 100))) - 27 / 100\<bar> \<le> 5 / 1000"
  by (simp add: bass_momentum_update_def Let_def zeroMomentum_def)

section \<open>The reaction offsets\<close>

lemma applyRouting_at:
  "orZero (applyRouting e audioData r result param) =
     orZero (result param) + (if parameter r = param then routingContribution e audioData r else 0)"
  by (simp add: applyRouting_def routingContribution_def Let_def orZero_def)

lemma fold_applyRouting:
  "orZero (fold (applyRouting e audioData) rs result param) =
     orZero (result param)
       + (\<Sum>r\<leftarrow>filter (\<lambda>r. parameter r = param) rs. routingContribution e audioData r)"
proof (induction rs arbitrary: result)
  case Nil
  then show ?case by simp
next
  case (Cons r rs)
  show ?case
    by (simp add: Cons.IH applyRouting_at)
qed

lemma example_offset: "reactionOffset exampleEngine exampleAudio ''intensity'' = 7 / 10"
  by (simp add: reactionOffset_def exampleEngine_def exampleRoutings_def exampleAudio_def
      routingContribution_def bandOf_def)

lemma example_result:
  "withReactions exampleEngine exampleAudio (withChoreography exampleEngine (withBase exampleEngine))
     ''intensity'' = Some (7 / 10)"
  by (simp add: withReactions_def withChoreography_def withBase_def exampleEngine_def
      exampleRoutings_def exampleAudio_def applyRouting_def bandOf_def orZero_def Let_def)

text \<open>
  Claim C1. The routings of \<open>calculate\<close> add to the running value of every parameter
  the sum, over the routings that target it, of zero when the source band's value is
  below the routing's threshold and of the curved band value times the routing's
  amount times the global reaction amount otherwise; \<open>calculate\<close> clamps the result
  of that. The two routings on \<open>intensity\<close> of the example, with bass 0.4 and mid
  0.6, give the reaction offset 0.7.
\<close>

theorem calculate_reactionOffset:
  "orZero (withReactions e audioData result0 param) =
     orZero (result0 param) + reactionOffset e audioData param \<and>
   calculate clampParameter e audioData param =
     map_option (clampParameter param)
       (withReactions e audioData (withChoreography e (withBase e)) param) \<and>
   reactionOffset exampleEngine exampleAudio ''intensity'' = 7 / 10 \<and>
   withReactions exampleEngine exampleAudio
     (withChoreography exampleEngine (withBase exampleEngine)) ''intensity'' = Some (7 / 10)"
  using example_offset example_result
  by (simp add: withReactions_def reactionOffset_def fold_applyRouting calculate_def Let_def)

theorem calculate_reactionOffset_witness:
  "orZero (withReactions exampleEngine exampleAudio Map.empty ''intensity'') = 7 / 10 \<and>
   orZero (withReactions exampleEngine exampleAudio [''intensity'' \<mapsto> 1] ''intensity'') = 17 / 10"
  using calculate_reactionOffset [of exampleEngine exampleAudio Map.empty "''intensity''"]
        calculate_reactionOffset
          [of exampleEngine exampleAudio "[''intensity'' \<mapsto> 1]" "''intensity''"]
  by (simp add: orZero_def)

section \<open>Ticks and active sequences\<close>



lemma forEach_inv:
  assumes "\<And>x s. g (stateOf (f x s)) = g s"
  shows "g (stateOf (forEach f xs s)) = g s"
proof (induction xs arbitrary: s)
  case Nil
  then show ?case by simp
next
  case (Cons x xs)
  show ?case
  proof (cases "f x s")
    case (Done s')
    with assms [of x s] have "g s' = g s" by simp
    with Done Cons.IH [of s'] show ?thesis by simp
  next
    case (Thrown s')
    with assms [of x s] show ?thesis by simp
  qed
qed

lemma js_eval_frame:
  "sequences (snd (js_eval outside items e)) = sequences e"
  "memory (snd (js_eval outside items e)) = memory e"
  by (simp_all add: js_eval_def split: option.splits)

lemma evaluateTrigger_snd:
  "snd (evaluateTrigger outside x a e) = snd (js_eval outside (substituted x a) e)"
  by (simp add: evaluateTrigger_def split: prod.splits completion.splits)

lemma evaluateTrigger_fst:
  "fst (evaluateTrigger outside x a e) =
     (case fst (js_eval outside (substituted x a) e) of
        Returns v \<Rightarrow> Returns v
      | Throws \<Rightarrow> Returns (Prim (JSBoolean False)))"
  by (simp add: evaluateTrigger_def split: prod.splits completion.splits)

lemma evaluateTrigger_returns: "\<exists>v. fst (evaluateTrigger outside x a e) = Returns v"
  by (simp add: evaluateTrigger_fst split: completion.splits)

lemma evaluateTrigger_frame:
  "sequences (snd (evaluateTrigger outside x a e)) = sequences e"
  "memory (snd (evaluateTrigger outside x a e)) = memory e"
  by (simp_all add: evaluateTrigger_snd js_eval_frame)

lemma startSequence_frame:
  "sequences (startSequence e n t) = sequences e"
  "memory (startSequence e n t) = memory e"
  "running (startSequence e n t) = running e"
  "visualizers (startSequence e n t) = visualizers e"
  by (simp_all add: startSequence_def split: option.splits)

lemma checkTrigger_string:
  assumes "trigger s = TriggerString x" "\<not> isActive e (name s)"
  shows "checkTrigger outside a t s e =
     Done (case fst (evaluateTrigger outside x a e) of
             Returns v \<Rightarrow> if truthy v then startSequence (snd (evaluateTrigger outside x a e)) (name s) t
                          else snd (evaluateTrigger outside x a e)
           | Throws \<Rightarrow> e)"
proof -
  obtain c e' where eq: "evaluateTrigger outside x a e = (c, e')"
    by (cases "evaluateTrigger outside x a e")
  obtain v where v: "fst (evaluateTrigger outside x a e) = Returns v"
    using evaluateTrigger_returns by blast
  with eq have c: "c = Returns v" by simp
  show ?thesis
    using assms by (simp add: checkTrigger_def eq c)
qed

lemma checkTrigger_frame:
  "sequences (stateOf (checkTrigger outside a t s e)) = sequences e"
  "memory (stateOf (checkTrigger outside a t s e)) = memory e"
proof -
  have "sequences (stateOf (checkTrigger outside a t s e)) = sequences e \<and>
        memory (stateOf (checkTrigger outside a t s e)) = memory e"
  proof (cases "isActive e (name s)")
    case True
    then show ?thesis by (simp add: checkTrigger_def)
  next
    case False
    show ?thesis
    proof (cases "trigger s")
      case (TriggerFunction f)
      with False show ?thesis
        by (simp add: checkTrigger_def startSequence_frame split: option.splits)
    next
      case (TriggerString x)
      show ?thesis
        unfolding checkTrigger_string [OF TriggerString False]
        by (simp add: startSequence_frame evaluateTrigger_frame split: completion.splits)
    next
      case NoTrigger
      with False show ?thesis by (simp add: checkTrigger_def)
    qed
  qed
  then show "sequences (stateOf (checkTrigger outside a t s e)) = sequences e"
    "memory (stateOf (checkTrigger outside a t s e)) = memory e"
    by simp_all
qed

lemma checkTriggers_frame:
  "sequences (stateOf (checkTriggers outside e a t)) = sequences e"
  "memory (stateOf (checkTriggers outside e a t)) = memory e"
  unfolding checkTriggers_def
  by (rule forEach_inv, rule checkTrigger_frame)+







lemma frame_setChoreographedParam: "engineFrame (setChoreographedParam e p v) = engineFrame e"
  by (simp add: engineFrame_def setChoreographedParam_def)

lemma frame_applyChange: "engineFrame (stateOf (applyChange progress pc e)) = engineFrame e"
  by (simp add: applyChange_def frame_setChoreographedParam split: change_value.splits)

lemma frame_applyStage: "engineFrame (stateOf (applyStage e stage progress)) = engineFrame e"
  unfolding applyStage_def by (rule forEach_inv) (rule frame_applyChange)

lemma frame_updateSequence: "engineFrame (stateOf (updateSequence e s elapsed)) = engineFrame e"
  by (simp add: updateSequence_def frame_applyStage split: option.splits prod.splits)

lemma frame_updateActive: "engineFrame (stateOf (updateActive t a e)) = engineFrame e"
  by (simp add: updateActive_def frame_updateSequence)

lemma frame_fields:
  assumes "engineFrame x = engineFrame e"
  shows "memory x = memory e" "sequences x = sequences e" "running x = running e"
    "activeSequences x = activeSequences e"
proof -
  have "memory (engineFrame x) = memory (engineFrame e)"
    "sequences (engineFrame x) = sequences (engineFrame e)"
    "running (engineFrame x) = running (engineFrame e)"
    "activeSequences (engineFrame x) = activeSequences (engineFrame e)"
    by (simp_all only: assms)
  then show "memory x = memory e" "sequences x = sequences e" "running x = running e"
    "activeSequences x = activeSequences e"
    by (simp_all add: engineFrame_def)
qed

lemma updateActiveSequences_cases:
  "(\<exists>e1. updateActiveSequences e t = Done e1 \<and>
          activeSequences e1 = filter (\<lambda>a. \<not> completed t a) (activeSequences e) \<and>
          memory e1 = memory e \<and> sequences e1 = sequences e \<and> running e1 = running e) \<or>
   (\<exists>e1. updateActiveSequences e t = Thrown e1 \<and>
          activeSequences e1 = activeSequences e \<and>
          memory e1 = memory e \<and> sequences e1 = sequences e \<and> running e1 = running e)"
proof -
  let ?r = "forEach (updateActive t) (activeSequences e) e"
  have fe: "engineFrame (stateOf ?r) = engineFrame e"
    by (rule forEach_inv) (rule frame_updateActive)
  note f = frame_fields [OF fe]
  show ?thesis
  proof (cases ?r)
    case (Done e1)
    with f show ?thesis by (simp add: updateActiveSequences_def)
  next
    case (Thrown e1)
    with f show ?thesis by (simp add: updateActiveSequences_def)
  qed
qed

lemma updateActiveSequences_frame:
  "memory (stateOf (updateActiveSequences e t)) = memory e"
  "sequences (stateOf (updateActiveSequences e t)) = sequences e"
  "running (stateOf (updateActiveSequences e t)) = running e"
  using updateActiveSequences_cases [of e t] by auto

lemma updateBeatTracking_frame:
  "sequences (updateBeatTracking e t a) = sequences e"
  "activeSequences (updateBeatTracking e t a) = activeSequences e"
  "running (updateBeatTracking e t a) = running e"
  "rotationMomentum (memory (updateBeatTracking e t a)) = rotationMomentum (memory e)"
  by (simp_all add: updateBeatTracking_def onOnset_def Let_def)


lemma animate_unfold:
  assumes "running e"
  shows "animate outside e a t =
     (case checkTriggers outside
             (updateMemory (updateBeatTracking
                (e\<lparr>deltaTime := t - lastFrameTime e, lastFrameTime := t\<rparr>) t a) a t) a t of
        Done e4 \<Rightarrow> updateActiveSequences e4 t
      | Thrown e4 \<Rightarrow> Thrown e4)"
  using assms by (simp add: animate_def Let_def)

lemma animate_not_running: "\<not> running e \<Longrightarrow> animate outside e a t = Done e"
  by (simp add: animate_def)


lemma animate_memory:
  assumes "running e"
  shows "memory (stateOf (animate outside e a t)) =
     memory (updateMemory (updateBeatTracking
                (e\<lparr>deltaTime := t - lastFrameTime e, lastFrameTime := t\<rparr>) t a) a t)"
proof -
  let ?e3 = "updateMemory (updateBeatTracking
                (e\<lparr>deltaTime := t - lastFrameTime e, lastFrameTime := t\<rparr>) t a) a t"
  have m4: "memory (stateOf (checkTriggers outside ?e3 a t)) = memory ?e3"
    by (rule checkTriggers_frame)
  show ?thesis
  proof (cases "checkTriggers outside ?e3 a t")
    case (Done e4)
    with m4 show ?thesis
      by (simp add: animate_unfold [OF assms] updateActiveSequences_frame)
  next
    case (Thrown e4)
    with m4 show ?thesis
      by (simp add: animate_unfold [OF assms])
  qed
qed





























section \<open>The rotation momentum of the memory\<close>

lemma updateMemory_momentum:
  "xw (rotationMomentum (memory (updateMemory e a t))) = xw (rotationMomentum (memory e))"
  "yw (rotationMomentum (memory (updateMemory e a t))) = yw (rotationMomentum (memory e))"
  "zw (rotationMomentum (memory (updateMemory e a t))) =
     (if bandOf a ''bass'' > 5 / 10
      then zw (rotationMomentum (memory e)) + bandOf a ''bass'' * (1 / 10)
      else zw (rotationMomentum (memory e))) * (98 / 100)"
  by (simp_all add: updateMemory_def accumulateRotationMomentum_def trackEnergyTrend_def
      trackBassHits_def Let_def)

lemma animate_momentum:
  "xw (rotationMomentum (memory (stateOf (animate outside e a t)))) =
     xw (rotationMomentum (memory e))"
  "yw (rotationMomentum (memory (stateOf (animate outside e a t)))) =
     yw (rotationMomentum (memory e))"
  "running e \<Longrightarrow> zw (rotationMomentum (memory (stateOf (animate outside e a t)))) =
     (if bandOf a ''bass'' > 5 / 10
      then zw (rotationMomentum (memory e)) + bandOf a ''bass'' * (1 / 10)
      else zw (rotationMomentum (memory e))) * (98 / 100)"
proof -
  show "xw (rotationMomentum (memory (stateOf (animate outside e a t)))) =
      xw (rotationMomentum (memory e))"
    by (cases "running e")
       (simp_all add: animate_memory animate_not_running updateMemory_momentum updateBeatTracking_frame)
  show "yw (rotationMomentum (memory (stateOf (animate outside e a t)))) =
      yw (rotationMomentum (memory e))"
    by (cases "running e")
       (simp_all add: animate_memory animate_not_running updateMemory_momentum updateBeatTracking_frame)
  show "running e \<Longrightarrow> zw (rotationMomentum (memory (stateOf (animate outside e a t)))) =
     (if bandOf a ''bass'' > 5 / 10
      then zw (rotationMomentum (memory e)) + bandOf a ''bass'' * (1 / 10)
      else zw (rotationMomentum (memory e))) * (98 / 100)"
    by (simp add: animate_memory updateMemory_momentum updateBeatTracking_frame)
qed

lemma reachable_momentum:
  "reachable outside e \<Longrightarrow>
     xw (rotationMomentum (memory e)) = 0 \<and> yw (rotationMomentum (memory e)) = 0"
proof (induction rule: reachable.induct)
  case (constructed vs configBpm)
  then show ?case by (simp add: newChoreographyEngine_def newMemory_def Let_def)
next
  case (defined e s e')
  then show ?case
    by (auto simp: defineSequence_def split: if_splits)
next
  case (started e now)
  then show ?case by (simp add: start_def)
next
  case (stopped e)
  then show ?case by (simp add: stop_def)
next
  case (ticked e audioData currentTime)
  then show ?case
    by (simp add: animate_momentum)
next
  case (manual e n startedAt)
  then show ?case by (simp add: startSequence_frame)
qed

lemma dropEngine_reachable: "reachable outside dropEngine"
proof -
  have "reachable outside (newChoreographyEngine [] None)"
    by (rule reachable.constructed)
  moreover have "defineSequence (newChoreographyEngine [] None) dropSequence =
      Some ((newChoreographyEngine [] None)\<lparr>sequences := [dropSequence]\<rparr>)"
    by (simp add: defineSequence_def dropSequence_def newChoreographyEngine_def Let_def)
  ultimately have
    "reachable outside ((newChoreographyEngine [] None)\<lparr>sequences := [dropSequence]\<rparr>)"
    by (rule reachable.defined)
  then show ?thesis
    unfolding dropEngine_def by (rule reachable.started)
qed

text \<open>
  Claim C10. A tick, whether it runs to its end or throws, leaves the \<open>xw\<close> and \<open>yw\<close>
  components of the memory's rotation momentum as they were, and a tick of a running
  engine sets \<open>zw\<close> to its old value, increased by 0.1 times the bass when the bass
  exceeds 0.5, times 0.98. In every engine that the operations produce from a
  constructed one, \<open>xw\<close> and \<open>yw\<close> are 0. (A trigger is taken to read the memory only.)
\<close>

theorem rotationMomentum_only_zw:
  "xw (rotationMomentum (memory (stateOf (animate outside e a t)))) =
     xw (rotationMomentum (memory e)) \<and>
   yw (rotationMomentum (memory (stateOf (animate outside e a t)))) =
     yw (rotationMomentum (memory e)) \<and>
   (running e \<longrightarrow>
      zw (rotationMomentum (memory (stateOf (animate outside e a t)))) =
        (if bandOf a ''bass'' > 5 / 10
         then zw (rotationMomentum (memory e)) + bandOf a ''bass'' * (1 / 10)
         else zw (rotationMomentum (memory e))) * (98 / 100)) \<and>
   (reachable outside e \<longrightarrow>
      xw (rotationMomentum (memory e)) = 0 \<and> yw (rotationMomentum (memory e)) = 0)"
  using reachable_momentum [of outside e]
  by (simp add: animate_momentum)

theorem rotationMomentum_only_zw_witness:
  "running dropEngine \<and>
   xw (rotationMomentum (memory (stateOf (animate throwsOutside dropEngine loudFrame 16)))) = 0 \<and>
   yw (rotationMomentum (memory (stateOf (animate throwsOutside dropEngine loudFrame 16)))) = 0 \<and>
   zw (rotationMomentum (memory (stateOf (animate throwsOutside dropEngine loudFrame 16))))
     = 882 / 10000"
proof -
  have r: "running dropEngine"
    by (simp add: dropEngine_def start_def newChoreographyEngine_def)
  have z: "zw (rotationMomentum (memory dropEngine)) = 0"
    by (simp add: dropEngine_def start_def newChoreographyEngine_def newMemory_def)
  have b: "bandOf loudFrame ''bass'' = 9 / 10"
    by (simp add: bandOf_def loudFrame_def)
  from rotationMomentum_only_zw [of throwsOutside dropEngine loudFrame 16] r dropEngine_reachable
  show ?thesis
    by (simp add: z b)
qed

section \<open>Stage changes\<close>

lemma range_bounds:
  "0 < underflowsAt" "underflowsAt < 1" "1 < overflowsAt" "underflowsAt < overflowsAt"
  by (simp_all add: underflowsAt_def overflowsAt_def)

lemma doubleRange_in: "inDoubleRange x \<Longrightarrow> doubleRange x = Finite x"
  by (simp add: inDoubleRange_def doubleRange_def)

lemma doubleRange_below:
  assumes "0 \<le> x" "x < overflowsAt"
  shows "doubleRange x = Finite (if x \<le> underflowsAt then 0 else x)"
  using assms by (simp add: doubleRange_def)

lemma spike_value:
  assumes "change_from c = None \<or> change_to c = None" "spike c = Some s" "decay c = Some d" "0 < d"
  shows "changeValue e p c t = IsNumber (js_times s (Math_pow d (t * 100)))"
  using assms by (auto simp: changeValue_def split: option.splits)

lemma Math_pow_positive:
  assumes "0 < d"
  shows "Math_pow d x = doubleRange (d powr x)"
  using assms range_bounds by (simp add: Math_pow_def doubleRange_def)

lemma applyStage_single:
  assumes "changeValue e p c t = IsNumber v"
  shows "applyStage e \<lparr>stage_start = st, stage_duration = du, changes = [(p, c)]\<rparr> t =
     Done (setChoreographedParam e p v)"
  using assms by (simp add: applyStage_def applyChange_def)

lemma updateSequence_single:
  assumes "0 \<le> el" "el < du"
  shows "updateSequence e
     \<lparr>name = n, duration = dur, trigger = tr,
      stages = [\<lparr>stage_start = None, stage_duration = du, changes = cs\<rparr>]\<rparr> el =
     applyStage e \<lparr>stage_start = None, stage_duration = du, changes = cs\<rparr> (el / du)"
  using assms by (simp add: updateSequence_def)

lemma powr_strict_decreasing:
  fixes d :: real
  assumes "0 < d" "d < 1" "a < b"
  shows "d powr b < d powr a"
proof -
  have "ln d < 0" using assms by simp
  then have "b * ln d < a * ln d" using assms(3) by simp
  then show ?thesis using assms(1) by (simp add: powr_def)
qed

lemma spike_decreasing:
  assumes "0 < s" "s < overflowsAt" "0 < d" "d < 1" "0 \<le> t1" "t1 < t2"
  shows "\<exists>v1 v2. js_times s (Math_pow d (t1 * 100)) = Finite v1 \<and>
                 js_times s (Math_pow d (t2 * 100)) = Finite v2 \<and>
                 v2 \<le> v1 \<and> (0 < v1 \<longrightarrow> v2 < v1)"
proof -
  define u where "u = underflowsAt"
  define flush where "flush = (\<lambda>x::real. if x \<le> u then 0 else x)"
  define p1 where "p1 = d powr (t1 * 100)"
  define p2 where "p2 = d powr (t2 * 100)"
  have u: "0 < u" unfolding u_def by (rule range_bounds)
  have p2: "0 < p2" unfolding p2_def using assms(3) by simp
  have p21: "p2 < p1"
    unfolding p1_def p2_def using assms by (intro powr_strict_decreasing) simp_all
  have "d powr (t1 * 100) \<le> d powr 0"
    using assms by (intro powr_mono') simp_all
  then have p1: "p1 \<le> 1" unfolding p1_def using assms(3) by simp
  have val: "js_times s (Math_pow d x) = Finite (flush (s * flush (d powr x)))"
    if x: "0 < d powr x" "d powr x \<le> 1" for x
  proof -
    have "d powr x < overflowsAt" using x(2) range_bounds(3) by simp
    then have a: "Math_pow d x = Finite (flush (d powr x))"
      using x(1) by (simp add: Math_pow_positive [OF assms(3)] doubleRange_below flush_def u_def)
    have f: "0 \<le> flush (d powr x) \<and> flush (d powr x) \<le> 1"
      using x by (simp add: flush_def)
    then have "0 \<le> s * flush (d powr x)" using assms(1) by simp
    moreover have "s * flush (d powr x) \<le> s * 1"
      using f assms(1) by (intro mult_left_mono) simp_all
    then have "s * flush (d powr x) < overflowsAt" using assms(2) by simp
    ultimately show ?thesis
      by (simp add: a doubleRange_below flush_def u_def)
  qed
  have p1': "0 < p1" unfolding p1_def using assms(3) by simp
  have p2': "p2 \<le> 1" using p21 p1 by simp
  have v1: "js_times s (Math_pow d (t1 * 100)) = Finite (flush (s * flush p1))"
    using p1 p1' unfolding p1_def by (rule val [rotated])
  have v2: "js_times s (Math_pow d (t2 * 100)) = Finite (flush (s * flush p2))"
    using p2' p2 unfolding p2_def by (rule val [rotated])
  have fl: "flush x \<le> x" if "0 \<le> x" for x using that by (simp add: flush_def)
  have mono: "flush x \<le> flush y" if "0 \<le> x" "x \<le> y" for x y
    using that u by (simp add: flush_def)
  have f21: "flush p2 \<le> flush p1" using p2 p21 by (intro mono) simp_all
  have "s * flush p2 \<le> s * flush p1"
    using f21 assms(1) by (intro mult_left_mono) simp_all
  moreover have f2: "0 \<le> flush p2" using p2 by (simp add: flush_def)
  then have s2: "0 \<le> s * flush p2" using assms(1) by simp
  ultimately have le: "flush (s * flush p2) \<le> flush (s * flush p1)"
    by (intro mono)
  have lt: "flush (s * flush p2) < flush (s * flush p1)" if pos: "0 < flush (s * flush p1)"
  proof -
    from pos have a: "flush (s * flush p1) = s * flush p1"
      by (simp add: flush_def split: if_splits)
    with pos assms(1) have "0 < flush p1" by (simp add: zero_less_mult_iff)
    then have b: "flush p1 = p1" by (simp add: flush_def split: if_splits)
    have "flush (s * flush p2) \<le> s * flush p2" using s2 by (rule fl)
    also have "\<dots> \<le> s * p2"
      using fl [of p2] p2 assms(1) by (intro mult_left_mono) simp_all
    also have "\<dots> < s * p1" using p21 assms(1) by simp
    finally have "flush (s * flush p2) < s * p1" .
    moreover have "flush (s * flush p1) = s * p1" using a b by simp
    ultimately show ?thesis by simp
  qed
  from v1 v2 le lt show ?thesis by blast
qed

lemma spikeExample_fields:
  "change_from spikeExample = None \<or> change_to spikeExample = None"
  "spike spikeExample = Some 2" "decay spikeExample = Some (9 / 10)" "(0::real) < 9 / 10"
  by (simp_all add: spikeExample_def)

lemma steepSpike_fields:
  "change_from steepSpike = None \<or> change_to steepSpike = None"
  "spike steepSpike = Some 2" "decay steepSpike = Some (1 / 10000)" "(0::real) < 1 / 10000"
  by (simp_all add: steepSpike_def)

lemma example_ranges:
  "inDoubleRange ((9 / 10) ^ 50)" "inDoubleRange (2 * (9 / 10) ^ 50)" "inDoubleRange 2"
  "inDoubleRange ((9 / 10) ^ 25)" "inDoubleRange (2 * (9 / 10) ^ 25)" "inDoubleRange 1"
  "\<bar>(1 / 10000 :: real) ^ 90\<bar> \<le> underflowsAt" "\<bar>(1 / 10000 :: real) ^ 95\<bar> \<le> underflowsAt"
  "\<bar>0::real\<bar> \<le> underflowsAt" "\<not> overflowsAt \<le> \<bar>(1 / 10000 :: real) ^ 90\<bar>"
  "\<not> overflowsAt \<le> \<bar>(1 / 10000 :: real) ^ 95\<bar>" "\<not> overflowsAt \<le> \<bar>0::real\<bar>"
  "(1 / 10000 :: real) ^ 90 \<le> underflowsAt" "(1 / 10000 :: real) ^ 95 \<le> underflowsAt"
  "0 \<le> underflowsAt" "\<not> overflowsAt \<le> (1 / 10000 :: real) ^ 90"
  "\<not> overflowsAt \<le> (1 / 10000 :: real) ^ 95" "\<not> overflowsAt \<le> 0"
  by (simp_all add: inDoubleRange_def underflowsAt_def overflowsAt_def power_divide)

lemma spikeExample_values:
  "changeValue e p spikeExample 0 = IsNumber (Finite 2)"
  "changeValue e p spikeExample (1 / 2) = IsNumber (Finite (2 * (9 / 10) ^ 50))"
proof -
  show "changeValue e p spikeExample 0 = IsNumber (Finite 2)"
    by (simp add: spike_value [OF spikeExample_fields] Math_pow_def doubleRange_in example_ranges)
  have "Math_pow (9 / 10) (1 / 2 * 100) = Finite ((9 / 10) ^ 50)"
    by (simp add: Math_pow_def powr_numeral doubleRange_in example_ranges)
  then show "changeValue e p spikeExample (1 / 2) = IsNumber (Finite (2 * (9 / 10) ^ 50))"
    by (simp add: spike_value [OF spikeExample_fields] doubleRange_in example_ranges)
qed

lemma steepSpike_values:
  "changeValue e p steepSpike (9 / 10) = IsNumber (Finite 0)"
  "changeValue e p steepSpike (95 / 100) = IsNumber (Finite 0)"
proof -
  have "Math_pow (1 / 10000) (9 / 10 * 100) = Finite 0"
    by (simp add: Math_pow_def powr_numeral doubleRange_def example_ranges)
  then show "changeValue e p steepSpike (9 / 10) = IsNumber (Finite 0)"
    by (simp add: spike_value [OF steepSpike_fields] doubleRange_def example_ranges)
  have "Math_pow (1 / 10000) (95 / 100 * 100) = Finite 0"
    by (simp add: Math_pow_def powr_numeral doubleRange_def example_ranges)
  then show "changeValue e p steepSpike (95 / 100) = IsNumber (Finite 0)"
    by (simp add: spike_value [OF steepSpike_fields] doubleRange_def example_ranges)
qed

text \<open>
  Claim C9, as amended. For a change with a spike and a positive decay (and not both
  endpoints of an interpolation), the value at the stage progress \<open>t\<close> is the spike
  times the decay to the power \<open>t\<close> times 100 whenever that power and the product are
  within the range of the doubles, and it is the spike itself at progress 0; a stage
  that holds the change sets the parameter to the value in every visualizer, and
  \<open>updateSequence\<close> applies the stage while the elapsed time is in it. For a positive
  spike and a decay below 1 the value never increases with the progress, from 0 on,
  and it is strictly decreasing as long as it is above 0: a power that underflows is
  0, as with the spike 2 and the decay 0.0001 at progress 0.9 and at 0.95. With the
  spike 2 and the decay 0.9 the value is exactly 2 at progress 0 and 2 times 0.9 to
  the 50th power, about 0.0103, at progress 0.5.
\<close>

theorem spike_decay_applied:
  assumes "change_from c = None \<or> change_to c = None" "spike c = Some s" "decay c = Some d" "0 < d"
  shows
    "(inDoubleRange (d powr (t * 100)) \<and> inDoubleRange (s * d powr (t * 100)) \<longrightarrow>
        changeValue e p c t = IsNumber (Finite (s * d powr (t * 100)))) \<and>
     (inDoubleRange s \<longrightarrow> changeValue e p c 0 = IsNumber (Finite s)) \<and>
     (\<forall>v. changeValue e p c t = IsNumber v \<longrightarrow>
        applyStage e \<lparr>stage_start = st, stage_duration = du, changes = [(p, c)]\<rparr> t =
          Done (setChoreographedParam e p v)) \<and>
     (0 \<le> el \<and> el < du \<longrightarrow>
        updateSequence e
          \<lparr>name = n, duration = dur, trigger = tr,
           stages = [\<lparr>stage_start = None, stage_duration = du, changes = [(p, c)]\<rparr>]\<rparr> el =
        applyStage e \<lparr>stage_start = None, stage_duration = du, changes = [(p, c)]\<rparr> (el / du)) \<and>
     (0 < s \<and> s < overflowsAt \<and> d < 1 \<and> 0 \<le> t1 \<and> t1 < t2 \<longrightarrow>
        (\<exists>v1 v2. changeValue e p c t1 = IsNumber (Finite v1) \<and>
                  changeValue e p c t2 = IsNumber (Finite v2) \<and>
                  v2 \<le> v1 \<and> (0 < v1 \<longrightarrow> v2 < v1))) \<and>
     changeValue e p spikeExample 0 = IsNumber (Finite 2) \<and>
     changeValue e p spikeExample (1 / 2) = IsNumber (Finite (2 * (9 / 10) ^ 50)) \<and>
     \<bar>2 * (9 / 10) ^ 50 - 103 / 10000\<bar> < (1 / 100000 :: real) \<and>
     changeValue e p steepSpike (9 / 10) = IsNumber (Finite 0) \<and>
     changeValue e p steepSpike (95 / 100) = IsNumber (Finite 0)"
proof -
  note sv = spike_value [OF assms]
  have a: "changeValue e p c t = IsNumber (Finite (s * d powr (t * 100)))"
    if "inDoubleRange (d powr (t * 100))" "inDoubleRange (s * d powr (t * 100))"
    using that by (simp add: sv Math_pow_positive [OF assms(4)] doubleRange_in)
  have b: "changeValue e p c 0 = IsNumber (Finite s)" if "inDoubleRange s"
    using that by (simp add: sv Math_pow_def doubleRange_in)
  have c: "\<forall>v. changeValue e p c t = IsNumber v \<longrightarrow>
        applyStage e \<lparr>stage_start = st, stage_duration = du, changes = [(p, c)]\<rparr> t =
          Done (setChoreographedParam e p v)"
    by (simp add: applyStage_single)
  have d: "updateSequence e
          \<lparr>name = n, duration = dur, trigger = tr,
           stages = [\<lparr>stage_start = None, stage_duration = du, changes = [(p, c)]\<rparr>]\<rparr> el =
        applyStage e \<lparr>stage_start = None, stage_duration = du, changes = [(p, c)]\<rparr> (el / du)"
    if "0 \<le> el" "el < du"
    using that by (rule updateSequence_single)
  have m: "\<exists>v1 v2. changeValue e p c t1 = IsNumber (Finite v1) \<and>
                  changeValue e p c t2 = IsNumber (Finite v2) \<and>
                  v2 \<le> v1 \<and> (0 < v1 \<longrightarrow> v2 < v1)"
    if "0 < s" "s < overflowsAt" "d < 1" "0 \<le> t1" "t1 < t2"
    using spike_decreasing [OF that(1) that(2) assms(4) that(3) that(4) that(5)]
    by (simp add: sv)
  have num: "\<bar>2 * (9 / 10) ^ 50 - 103 / 10000\<bar> < (1 / 100000 :: real)"
    by (simp add: power_divide)
  from a b c d m num spikeExample_values [of e p] steepSpike_values [of e p]
  show ?thesis by blast
qed

theorem spike_decay_applied_witness:
  "changeValue liveEngine ''intensity'' spikeExample (1 / 4)
     = IsNumber (Finite (2 * (9 / 10) ^ 25)) \<and>
   changeValue liveEngine ''intensity'' spikeExample 0 = IsNumber (Finite 2) \<and>
   applyStage liveEngine (stageOf spikeExample) (1 / 4)
     = Done (setChoreographedParam liveEngine ''intensity'' (Finite (2 * (9 / 10) ^ 25))) \<and>
   updateSequence liveEngine (sequenceOf spikeExample) 250
     = Done (setChoreographedParam liveEngine ''intensity'' (Finite (2 * (9 / 10) ^ 25))) \<and>
   map (\<lambda>viz. params viz ''intensity'')
     (visualizers (stateOf (updateSequence liveEngine (sequenceOf spikeExample) 250)))
     = [Some (Finite (2 * (9 / 10) ^ 25))] \<and>
   changeValue liveEngine ''intensity'' spikeExample (1 / 2)
     = IsNumber (Finite (2 * (9 / 10) ^ 50)) \<and>
   (2::real) * (9 / 10) ^ 50 < 2 * (9 / 10) ^ 25"
proof -
  note h = spikeExample_fields
  have pw: "(9 / 10 :: real) powr (1 / 4 * 100) = (9 / 10) ^ 25"
    by (simp add: powr_numeral)
  have o: "(0::real) < 2 \<and> 2 < overflowsAt \<and> (9 / 10 :: real) < 1 \<and> (0::real) \<le> 1 / 4
      \<and> (1 / 4 :: real) < 1 / 2 \<and> (0::real) \<le> 250 \<and> (250::real) < 1000 \<and> inDoubleRange 2"
    using example_ranges(3) by (simp add: inDoubleRange_def)
  note t = spike_decay_applied [OF h, of "1 / 4" liveEngine "''intensity''" None 1000 250
      "''flash''" 1000 NoTrigger "1 / 4" "1 / 2"]
  from t have v4: "changeValue liveEngine ''intensity'' spikeExample (1 / 4)
      = IsNumber (Finite (2 * (9 / 10) ^ 25))"
    unfolding pw using example_ranges by blast
  from t o have v0: "changeValue liveEngine ''intensity'' spikeExample 0 = IsNumber (Finite 2)"
    by blast
  from t v4 have ap: "applyStage liveEngine (stageOf spikeExample) (1 / 4)
      = Done (setChoreographedParam liveEngine ''intensity'' (Finite (2 * (9 / 10) ^ 25)))"
    unfolding stageOf_def by blast
  from t o have "updateSequence liveEngine (sequenceOf spikeExample) 250
      = applyStage liveEngine (stageOf spikeExample) (250 / 1000)"
    unfolding stageOf_def sequenceOf_def by blast
  with ap have us: "updateSequence liveEngine (sequenceOf spikeExample) 250
      = Done (setChoreographedParam liveEngine ''intensity'' (Finite (2 * (9 / 10) ^ 25)))"
    by simp
  have vz: "map (\<lambda>viz. params viz ''intensity'')
     (visualizers (stateOf (updateSequence liveEngine (sequenceOf spikeExample) 250)))
     = [Some (Finite (2 * (9 / 10) ^ 25))]"
    unfolding us
    by (simp add: setChoreographedParam_def liveEngine_def liveVisualizer_def
        newChoreographyEngine_def)
  from t o obtain v1 v2 where v:
    "changeValue liveEngine ''intensity'' spikeExample (1 / 4) = IsNumber (Finite v1)"
    "changeValue liveEngine ''intensity'' spikeExample (1 / 2) = IsNumber (Finite v2)"
    "v2 \<le> v1" "0 < v1 \<longrightarrow> v2 < v1"
    by blast
  from t have v2: "changeValue liveEngine ''intensity'' spikeExample (1 / 2)
      = IsNumber (Finite (2 * (9 / 10) ^ 50))"
    by blast
  from v(1) v4 have "v1 = 2 * (9 / 10) ^ 25" by simp
  moreover from v(2) v2 have "v2 = 2 * (9 / 10) ^ 50" by simp
  ultimately have lt: "(2::real) * (9 / 10) ^ 50 < 2 * (9 / 10) ^ 25"
    using v(4) by simp
  from v4 v0 ap us vz v2 lt show ?thesis by blast
qed

text \<open>
  With the spike -2 and the decay 0.9 the value is -2 at progress 0 and about -0.0103
  at progress 0.5: it increases.
\<close>

theorem negative_spike_counterexample:
  "changeValue liveEngine ''intensity'' negativeSpike 0 = IsNumber (Finite (- 2)) \<and>
   changeValue liveEngine ''intensity'' negativeSpike (1 / 2)
     = IsNumber (Finite (- 2 * (9 / 10) ^ 50)) \<and>
   (- 2 :: real) < - 2 * (9 / 10) ^ 50"
proof -
  have h: "change_from negativeSpike = None \<or> change_to negativeSpike = None"
    "spike negativeSpike = Some (- 2)" "decay negativeSpike = Some (9 / 10)" "(0::real) < 9 / 10"
    by (simp_all add: negativeSpike_def)
  have r: "inDoubleRange (- 2)" "inDoubleRange (- (2 * (9 / 10) ^ 50))"
    using example_ranges by (simp_all add: inDoubleRange_def)
  have a: "changeValue liveEngine ''intensity'' negativeSpike 0 = IsNumber (Finite (- 2))"
    using r by (simp add: spike_value [OF h] Math_pow_def doubleRange_in)
  have "Math_pow (9 / 10) (1 / 2 * 100) = Finite ((9 / 10) ^ 50)"
    by (simp add: Math_pow_def powr_numeral doubleRange_in example_ranges)
  then have b: "changeValue liveEngine ''intensity'' negativeSpike (1 / 2)
     = IsNumber (Finite (- 2 * (9 / 10) ^ 50))"
    using r by (simp add: spike_value [OF h] doubleRange_in)
  have c: "(- 2 :: real) < - 2 * (9 / 10) ^ 50"
    by (simp add: power_divide)
  from a b c show ?thesis by blast
qed

text \<open>
  Claim C4. \<open>getCurrentParam\<close> returns 0 whatever the live value of the parameter: with
  a visualizer whose \<open>intensity\<close> is 0.8, an interpolation from \<open>'current'\<close> to 1
  gives 0 at progress 0 and 0.5 at progress 0.5 (from the live value they would be 0.8
  and 0.9), and the stage sets the visualizer's \<open>intensity\<close> to 0.
\<close>

theorem interpolate_current_is_zero:
  "map (\<lambda>viz. params viz ''intensity'') (visualizers liveEngine) = [Some (Finite (8 / 10))] \<and>
   changeValue liveEngine ''intensity'' fromCurrent 0 = IsNumber (Finite 0) \<and>
   changeValue liveEngine ''intensity'' fromCurrent (1 / 2) = IsNumber (Finite (1 / 2)) \<and>
   map (\<lambda>viz. params viz ''intensity'')
     (visualizers (stateOf (applyStage liveEngine
        \<lparr>stage_start = None, stage_duration = 1000, changes = [(''intensity'', fromCurrent)]\<rparr> 0)))
     = [Some (Finite 0)]"
  by (simp add: liveEngine_def liveVisualizer_def fromCurrent_def newChoreographyEngine_def
      changeValue_def resolveEndpoint_def getCurrentParam_def getEasingFunction_def
      applyStage_def applyChange_def setChoreographedParam_def Let_def)

section \<open>Trigger expressions\<close>








lemma evalUnary_not: "evalUnary (TNot # ts) = Some v \<Longrightarrow> \<exists>b. v = JSBoolean b"
  by auto







end
